theory Spec2Isabelle
  imports Main "HOL-Library.Word"
begin

section \<open>The plugin-side adapter of examples/plugins/plugin.cc\<close>

text \<open>
  The adapter class \<open>clap::Plugin\<close> sits between the C function table a host drives and
  the virtual methods a plugin author overrides. This theory embeds its entry points as
  functions on an explicit instance state. What an entry point does beyond returning a
  value is written out:
  \<^item> the members of the class are the fields of the record \<open>plugin_state\<close>;
  \<^item> \<open>std::terminate()\<close> and a failing \<open>assert\<close> end the run: they are the outcomes
    \<open>Terminated\<close> and \<open>AssertFailed\<close>, which carry the state reached;
  \<^item> what the adapter does to the outside (a line handed to the host's log or written to
    \<open>std::clog\<close>, a call of one of the author's virtual methods) is appended to the field
    \<open>trace\<close>, in program order;
  \<^item> the author's virtual methods are the fields of the record \<open>author\<close>, functions on
    the author's own state (the members of the subclass), which the adapter stores but
    never inspects.
\<close>

subsection \<open>Scalars, outcomes, events\<close>

type_synonym clap_id = "32 word"

text \<open>The thread an entry point is running on; the host function tables are asked about it.\<close>

datatype thread = MainThread | AudioThread | OtherThread

text \<open>
  Of the log severities only \<open>CLAP_LOG_HOST_MISBEHAVING\<close> is used by the adapter.
\<close>

datatype clap_log_severity = CLAP_LOG_HOST_MISBEHAVING

text \<open>
  Modelled from the spec: the status values of \<open>clap_process_status\<close>, declared in a
  header that is not part of the sources at hand (\<open>process(block) -> status{continue|error|...}\<close>).
  The adapter itself only ever produces \<open>CLAP_PROCESS_ERROR\<close>.
\<close>

datatype clap_process_status = CLAP_PROCESS_ERROR | CLAP_PROCESS_CONTINUE | CLAP_PROCESS_SLEEP

text \<open>The virtual methods of the author surface, as they appear in the trace.\<close>

datatype hook_call =
    CallInit
  | CallActivate int
  | CallDeactivate
  | CallStartProcessing
  | CallStopProcessing
  | CallProcess
  | CallExtension string
  | CallImplementsAudioPorts
  | CallImplementsParams
  | CallAudioPortsSetConfig clap_id
  | CallParamsCount
  | CallParamsInfo "32 word"
  | CallParamsEnumValue clap_id "32 word"
  | CallParamsValue clap_id
  | CallParamsSetValue clap_id
  | CallParamsValueToText clap_id
  | CallParamsTextToValue clap_id

datatype event =
    HostLog clap_log_severity string   \<comment> \<open>\<open>hostLog_->log(host_, severity, msg)\<close>\<close>
  | Clog string                        \<comment> \<open>\<open>std::clog << msg << std::endl\<close>\<close>
  | Cerr string                        \<comment> \<open>\<open>std::cerr << msg << std::endl\<close>\<close>
  | AuthorCall hook_call               \<comment> \<open>a call of a virtual method of the author surface\<close>

datatype ('r, 's) outcome =
    Returned 'r 's      \<comment> \<open>the function returned this value, leaving this state\<close>
  | Terminated 's       \<comment> \<open>\<open>std::terminate()\<close> was reached in this state\<close>
  | AssertFailed 's     \<comment> \<open>an \<open>assert\<close> failed in this state (builds without \<open>NDEBUG\<close>)\<close>

fun andThen :: "('r, 's) outcome \<Rightarrow> ('r \<Rightarrow> 's \<Rightarrow> ('q, 's) outcome) \<Rightarrow> ('q, 's) outcome" where
  "andThen (Returned r s) f = f r s"
| "andThen (Terminated s) f = Terminated s"
| "andThen (AssertFailed s) f = AssertFailed s"

fun state_of :: "('r, 's) outcome \<Rightarrow> 's" where
  "state_of (Returned r s) = s"
| "state_of (Terminated s) = s"
| "state_of (AssertFailed s) = s"

fun returned :: "('r, 's) outcome \<Rightarrow> 'r option" where
  "returned (Returned r s) = Some r"
| "returned (Terminated s) = None"
| "returned (AssertFailed s) = None"

text \<open>
  \<open>assert(c)\<close>: nothing when the build defines \<open>NDEBUG\<close>, otherwise the run ends when
  \<open>c\<close> is false.
\<close>

definition cassert :: "bool \<Rightarrow> bool \<Rightarrow> 's \<Rightarrow> (unit, 's) outcome" where
  "cassert ndebug c s = (if ndebug \<or> c then Returned () s else AssertFailed s)"

subsection \<open>Decimal output of \<open>operator<<\<close>\<close>

definition digit_char :: "nat \<Rightarrow> char" where
  "digit_char d = ''0123456789'' ! (d mod 10)"

function show_nat :: "nat \<Rightarrow> string" where
  "show_nat n = (if n < 10 then [digit_char n] else show_nat (n div 10) @ [digit_char n])"
  by pat_completeness auto
termination
  by (relation "measure (\<lambda>n. n)") auto

declare show_nat.simps [simp del]

definition show_int :: "int \<Rightarrow> string" where
  "show_int i = (if i < 0 then CHR ''-'' # show_nat (nat (- i)) else show_nat (nat i))"

text \<open>An \<open>int32_t\<close> prints signed, a \<open>uint32_t\<close> or \<open>clap_id\<close> unsigned.\<close>

definition show_int32 :: "32 word \<Rightarrow> string" where
  "show_int32 w = show_int (sint w)"

definition show_uint32 :: "32 word \<Rightarrow> string" where
  "show_uint32 w = show_nat (unat w)"

definition endl :: string where
  "endl = [CHR 0x0A]"

subsection \<open>The host's side\<close>

text \<open>
  A host interface table is a struct of function pointers, each of which may be null.
  \<open>log_fn\<close> says whether \<open>clap_host_log.log\<close> is set; calling it is the event
  \<open>HostLog\<close>. The two thread queries answer for the thread the call is made on.
\<close>

record clap_host_log =
  log_fn :: bool

record clap_host_thread_check =
  is_main_thread :: "(thread \<Rightarrow> bool) option"
  is_audio_thread :: "(thread \<Rightarrow> bool) option"

text \<open>
  Modelled from the spec: \<open>clap_track_info\<close> is declared in a header that is not part of
  the sources at hand; the snapshot is "channel count, channel map", the two fields
  plugin.cc reads.
\<close>

record clap_track_info =
  channel_count :: "32 word"
  channel_map :: "32 word"

text \<open>
  \<open>get\<close> is \<open>clap_host_track_info.get\<close>: null, or a function that fails (\<open>None\<close>) or
  fills the caller's buffer.
\<close>

record clap_host_track_info =
  get :: "clap_track_info option option"

text \<open>
  \<open>host_->extension(host_, id)\<close> at the thirteen ids \<open>initInterfaces\<close> asks for, each
  answer already at the type the adapter casts it to. The ten tables plugin.cc never
  looks into are only present or absent.
\<close>

record host_tables =
  ext_log :: "clap_host_log option"
  ext_thread_check :: "clap_host_thread_check option"
  ext_thread_pool :: "unit option"
  ext_audio_ports :: "unit option"
  ext_event_loop :: "unit option"
  ext_event_filter :: "unit option"
  ext_file_reference :: "unit option"
  ext_latency :: "unit option"
  ext_gui :: "unit option"
  ext_params :: "unit option"
  ext_track_info :: "clap_host_track_info option"
  ext_state :: "unit option"
  ext_note_name :: "unit option"

text \<open>\<open>clap_host\<close>: its \<open>extension\<close> function pointer, null or the lookup above.\<close>

record clap_host =
  host_extension :: "host_tables option"

subsection \<open>The instance\<close>

text \<open>The static member functions a slot of the function table can point to.\<close>

datatype entry_point =
    ClapInit | ClapDestroy | ClapExtension | ClapProcess
  | ClapActivate | ClapDeactivate | ClapStartProcessing | ClapStopProcessing

text \<open>
  \<open>clap_plugin\<close>, the table handed to the host. \<open>plugin_data\<close> (the instance itself) is
  what \<open>plugin_ref\<close> below stands for; \<open>desc\<close> is the address of the descriptor.
\<close>

record clap_plugin =
  desc :: nat
  slot_init :: "entry_point option"
  slot_destroy :: "entry_point option"
  slot_extension :: "entry_point option"
  slot_process :: "entry_point option"
  slot_activate :: "entry_point option"
  slot_deactivate :: "entry_point option"
  slot_start_processing :: "entry_point option"
  slot_stop_processing :: "entry_point option"

text \<open>
  The members of \<open>Plugin\<close>, then the author's own state and the trace. A member
  \<open>isActive_\<close> of the class is the field \<open>isActive_'\<close> here (a name cannot end in an
  underscore). \<open>trackInfo_'\<close> is \<open>None\<close> while the buffer holds nothing determined
  (never fetched, or a failed fetch).
\<close>

record 'a plugin_state =
  plugin_' :: clap_plugin
  host_' :: clap_host
  hostLog_' :: "clap_host_log option"
  hostThreadCheck_' :: "clap_host_thread_check option"
  hostThreadPool_' :: "unit option"
  hostAudioPorts_' :: "unit option"
  hostEventLoop_' :: "unit option"
  hostEventFilter_' :: "unit option"
  hostFileReference_' :: "unit option"
  hostLatency_' :: "unit option"
  hostGui_' :: "unit option"
  hostParams_' :: "unit option"
  hostTrackInfo_' :: "clap_host_track_info option"
  hostState_' :: "unit option"
  hostNoteName_' :: "unit option"
  hasTrackInfo_' :: bool
  trackInfo_' :: "clap_track_info option"
  isActive_' :: bool
  isProcessing_' :: bool
  sampleRate_' :: int
  author_state :: 'a
  trace :: "event list"

definition emit :: "event \<Rightarrow> 'a plugin_state \<Rightarrow> 'a plugin_state" where
  "emit e s = s\<lparr>trace := trace s @ [e]\<rparr>"

text \<open>The events a run added to the trace.\<close>

definition new_events :: "'a plugin_state \<Rightarrow> 'a plugin_state \<Rightarrow> event list" where
  "new_events s s' = drop (length (trace s)) (trace s')"

subsection \<open>Logging\<close>

definition canUseHostLog :: "'a plugin_state \<Rightarrow> bool" where
  "canUseHostLog s = (case hostLog_' s of None \<Rightarrow> False | Some l \<Rightarrow> log_fn l)"

definition plugin_log :: "clap_log_severity \<Rightarrow> string \<Rightarrow> 'a plugin_state \<Rightarrow> 'a plugin_state" where
  "plugin_log severity msg s =
     (if canUseHostLog s then emit (HostLog severity msg) s else emit (Clog msg) s)"

definition hostMisbehaving :: "string \<Rightarrow> 'a plugin_state \<Rightarrow> 'a plugin_state" where
  "hostMisbehaving msg s = plugin_log CLAP_LOG_HOST_MISBEHAVING msg s"

text \<open>The event a call of \<open>hostMisbehaving\<close> leaves in the trace.\<close>

definition misbehaving_event :: "'a plugin_state \<Rightarrow> string \<Rightarrow> event" where
  "misbehaving_event s msg =
     (if canUseHostLog s then HostLog CLAP_LOG_HOST_MISBEHAVING msg else Clog msg)"

subsection \<open>Interface consistency check\<close>


subsection \<open>Thread checking\<close>

text \<open>
  The condition under which the three guards return at once: no table, no query function
  in it, or the query answers yes for the current thread.
\<close>

definition mainThreadOk :: "thread \<Rightarrow> 'a plugin_state \<Rightarrow> bool" where
  "mainThreadOk t s =
     (case hostThreadCheck_' s of
        None \<Rightarrow> True
      | Some tc \<Rightarrow> (case is_main_thread tc of None \<Rightarrow> True | Some f \<Rightarrow> f t))"

definition audioThreadOk :: "thread \<Rightarrow> 'a plugin_state \<Rightarrow> bool" where
  "audioThreadOk t s =
     (case hostThreadCheck_' s of
        None \<Rightarrow> True
      | Some tc \<Rightarrow> (case is_audio_thread tc of None \<Rightarrow> True | Some f \<Rightarrow> f t))"

definition checkMainThread :: "thread \<Rightarrow> 'a plugin_state \<Rightarrow> (unit, 'a plugin_state) outcome" where
  "checkMainThread t s = (if mainThreadOk t s then Returned () s else Terminated s)"

definition ensureMainThread ::
  "thread \<Rightarrow> string \<Rightarrow> 'a plugin_state \<Rightarrow> (unit, 'a plugin_state) outcome" where
  "ensureMainThread t method_name s =
     (if mainThreadOk t s then Returned () s
      else Terminated (hostMisbehaving
        (''Host called the method '' @ method_name @
         ''() on wrong thread! It must be called on main thread!'') s))"

definition ensureAudioThread ::
  "thread \<Rightarrow> string \<Rightarrow> 'a plugin_state \<Rightarrow> (unit, 'a plugin_state) outcome" where
  "ensureAudioThread t method_name s =
     (if audioThreadOk t s then Returned () s
      else Terminated (hostMisbehaving
        (''Host called the method '' @ method_name @
         ''() on wrong thread! It must be called on audio thread!'') s))"

subsection \<open>The author surface\<close>

text \<open>
  Modelled from the spec: \<open>clap_param_info\<close> is declared in a header that is not part of
  the sources at hand; plugin.cc reads its field \<open>id\<close> only ("matching by id"), here
  \<open>info_id\<close>.
\<close>

record clap_param_info =
  info_id :: clap_id

text \<open>
  The virtual methods plugin.cc calls, declared in plugin.hh. Each takes the author's
  state and returns its result with the new state; the ones \<open>isValidParamId\<close> (a
  \<open>const\<close> member function) calls, and the two capability predicates, only read it.
  One with an output buffer returns \<open>None\<close> for \<open>false\<close> and the buffer's new
  content for \<open>true\<close>. The type variables are the author's state \<open>'a\<close>, the block
  \<open>clap_process\<close> \<open>'p\<close>, \<open>clap_param_value\<close> \<open>'v\<close> and what the author's
  \<open>extension\<close> points to \<open>'e\<close>.
\<close>

record ('a, 'p, 'v, 'e) author =
  init :: "'a \<Rightarrow> bool \<times> 'a"
  activate :: "int \<Rightarrow> 'a \<Rightarrow> bool \<times> 'a"
  deactivate :: "'a \<Rightarrow> unit \<times> 'a"
  startProcessing :: "'a \<Rightarrow> bool \<times> 'a"
  stopProcessing :: "'a \<Rightarrow> unit \<times> 'a"
  process :: "'p \<Rightarrow> 'a \<Rightarrow> clap_process_status \<times> 'a"
  extension :: "string \<Rightarrow> 'a \<Rightarrow> 'e option \<times> 'a"
  implementsAudioPorts :: "'a \<Rightarrow> bool"
  audioPortsSetConfig :: "clap_id \<Rightarrow> 'a \<Rightarrow> bool \<times> 'a"
  implementsParams :: "'a \<Rightarrow> bool"
  paramsCount :: "'a \<Rightarrow> 32 word"
  paramsInfo :: "32 word \<Rightarrow> 'a \<Rightarrow> clap_param_info option"
  paramsEnumValue :: "clap_id \<Rightarrow> 32 word \<Rightarrow> 'a \<Rightarrow> 'v option \<times> 'a"
  paramsValue :: "clap_id \<Rightarrow> 'a \<Rightarrow> 'v option \<times> 'a"
  paramsSetValue :: "clap_id \<Rightarrow> 'v \<Rightarrow> 'v \<Rightarrow> 'a \<Rightarrow> bool \<times> 'a"
  paramsValueToText :: "clap_id \<Rightarrow> 'v \<Rightarrow> 32 word \<Rightarrow> 'a \<Rightarrow> string option \<times> 'a"
  paramsTextToValue :: "clap_id \<Rightarrow> string \<Rightarrow> 'a \<Rightarrow> 'v option \<times> 'a"

text \<open>
  A call of a virtual method: the call is recorded, it runs on the author's state, and
  its result comes back with the state it leaves. \<open>call_const\<close> is the same for one
  that only reads.
\<close>

definition call_author ::
  "hook_call \<Rightarrow> ('a \<Rightarrow> 'r \<times> 'a) \<Rightarrow> 'a plugin_state \<Rightarrow> ('r, 'a plugin_state) outcome" where
  "call_author c f s =
     Returned (fst (f (author_state s)))
       ((emit (AuthorCall c) s)\<lparr>author_state := snd (f (author_state s))\<rparr>)"

definition call_const ::
  "hook_call \<Rightarrow> ('a \<Rightarrow> 'r) \<Rightarrow> 'a plugin_state \<Rightarrow> ('r, 'a plugin_state) outcome" where
  "call_const c f s = Returned (f (author_state s)) (emit (AuthorCall c) s)"

subsection \<open>Utilities\<close>

text \<open>
  What the host passes as \<open>const clap_plugin *plugin\<close>: a null pointer, a table whose
  \<open>plugin_data\<close> is null, or the table of this instance.
\<close>

datatype plugin_ref = NullPlugin | NullPluginData | ThisPlugin

definition from_plugin :: "plugin_ref \<Rightarrow> 'a plugin_state \<Rightarrow> (unit, 'a plugin_state) outcome" where
  "from_plugin plugin s =
     (case plugin of
        NullPlugin \<Rightarrow> Terminated (emit (Cerr ''called with a null clap_plugin pointer!'') s)
      | NullPluginData \<Rightarrow>
          Terminated (emit (Cerr (''called with a null clap_plugin->plugin_data pointer! The host must never '' @
                                  ''change this pointer!'')) s)
      | ThisPlugin \<Rightarrow> Returned () s)"

text \<open>
  \<open>initInterface(ptr, id)\<close>: \<open>ptr\<close> and \<open>set_ptr\<close> read and write the member, \<open>answer\<close>
  is the host's answer at \<open>id\<close>. The second assertion, \<open>assert(id)\<close>, is about a string
  literal and never fails.
\<close>

definition initInterface ::
  "bool \<Rightarrow> ('a plugin_state \<Rightarrow> 'x option) \<Rightarrow> ('x option \<Rightarrow> 'a plugin_state \<Rightarrow> 'a plugin_state) \<Rightarrow>
   (host_tables \<Rightarrow> 'x option) \<Rightarrow> 'a plugin_state \<Rightarrow> (unit, 'a plugin_state) outcome" where
  "initInterface ndebug ptr set_ptr answer s =
     andThen (cassert ndebug (ptr s = None) s) (\<lambda>_ s.
       Returned () (case host_extension (host_' s) of
                      None \<Rightarrow> s
                    | Some lookup \<Rightarrow> set_ptr (answer lookup) s))"

definition initInterfaces :: "bool \<Rightarrow> 'a plugin_state \<Rightarrow> (unit, 'a plugin_state) outcome" where
  "initInterfaces ndebug s =
     andThen (initInterface ndebug hostLog_' (\<lambda>v s. s\<lparr>hostLog_' := v\<rparr>) ext_log s) (\<lambda>_ s.
     andThen (initInterface ndebug hostThreadCheck_' (\<lambda>v s. s\<lparr>hostThreadCheck_' := v\<rparr>) ext_thread_check s) (\<lambda>_ s.
     andThen (initInterface ndebug hostThreadPool_' (\<lambda>v s. s\<lparr>hostThreadPool_' := v\<rparr>) ext_thread_pool s) (\<lambda>_ s.
     andThen (initInterface ndebug hostAudioPorts_' (\<lambda>v s. s\<lparr>hostAudioPorts_' := v\<rparr>) ext_audio_ports s) (\<lambda>_ s.
     andThen (initInterface ndebug hostEventLoop_' (\<lambda>v s. s\<lparr>hostEventLoop_' := v\<rparr>) ext_event_loop s) (\<lambda>_ s.
     andThen (initInterface ndebug hostEventFilter_' (\<lambda>v s. s\<lparr>hostEventFilter_' := v\<rparr>) ext_event_filter s) (\<lambda>_ s.
     andThen (initInterface ndebug hostFileReference_' (\<lambda>v s. s\<lparr>hostFileReference_' := v\<rparr>) ext_file_reference s) (\<lambda>_ s.
     andThen (initInterface ndebug hostLatency_' (\<lambda>v s. s\<lparr>hostLatency_' := v\<rparr>) ext_latency s) (\<lambda>_ s.
     andThen (initInterface ndebug hostGui_' (\<lambda>v s. s\<lparr>hostGui_' := v\<rparr>) ext_gui s) (\<lambda>_ s.
     andThen (initInterface ndebug hostParams_' (\<lambda>v s. s\<lparr>hostParams_' := v\<rparr>) ext_params s) (\<lambda>_ s.
     andThen (initInterface ndebug hostTrackInfo_' (\<lambda>v s. s\<lparr>hostTrackInfo_' := v\<rparr>) ext_track_info s) (\<lambda>_ s.
     andThen (initInterface ndebug hostState_' (\<lambda>v s. s\<lparr>hostState_' := v\<rparr>) ext_state s) (\<lambda>_ s.
     initInterface ndebug hostNoteName_' (\<lambda>v s. s\<lparr>hostNoteName_' := v\<rparr>) ext_note_name s))))))))))))"

subsection \<open>Construction\<close>

text \<open>
  Modelled from the spec: the constructor in plugin.cc sets the function table and
  \<open>host_\<close>; the other members get their values from default member initialisers in
  plugin.hh, which is not part of the sources at hand. By the spec every host capability
  starts absent, the instance starts inactive and not processing, the sample rate "must
  be 0 when inactive", and there is no track info yet. \<open>a0\<close> is the initial state of
  the author's subclass.
\<close>

definition Plugin :: "nat \<Rightarrow> clap_host \<Rightarrow> 'a \<Rightarrow> 'a plugin_state" where
  "Plugin descriptor host a0 =
     \<lparr> plugin_' = \<lparr> desc = descriptor,
                    slot_init = Some ClapInit,
                    slot_destroy = Some ClapDestroy,
                    slot_extension = None,
                    slot_process = None,
                    slot_activate = None,
                    slot_deactivate = None,
                    slot_start_processing = None,
                    slot_stop_processing = None \<rparr>,
       host_' = host,
       hostLog_' = None, hostThreadCheck_' = None, hostThreadPool_' = None,
       hostAudioPorts_' = None, hostEventLoop_' = None, hostEventFilter_' = None,
       hostFileReference_' = None, hostLatency_' = None, hostGui_' = None,
       hostParams_' = None, hostTrackInfo_' = None, hostState_' = None,
       hostNoteName_' = None,
       hasTrackInfo_' = False, trackInfo_' = None,
       isActive_' = False, isProcessing_' = False, sampleRate_' = 0,
       author_state = a0, trace = [] \<rparr>"

subsection \<open>Track info\<close>

text \<open>
  Modelled from the spec: \<open>canUseTrackInfo\<close> is declared in plugin.hh and defined nowhere
  in the sources at hand; "the host's track-info capability is usable (query function
  present)".
\<close>

definition canUseTrackInfo :: "'a plugin_state \<Rightarrow> bool" where
  "canUseTrackInfo s = (case hostTrackInfo_' s of None \<Rightarrow> False | Some ti \<Rightarrow> get ti \<noteq> None)"

definition initTrackInfo :: "bool \<Rightarrow> thread \<Rightarrow> 'a plugin_state \<Rightarrow> (unit, 'a plugin_state) outcome" where
  "initTrackInfo ndebug t s =
     andThen (checkMainThread t s) (\<lambda>_ s.
     andThen (cassert ndebug (\<not> hasTrackInfo_' s) s) (\<lambda>_ s.
       if \<not> canUseTrackInfo s then Returned () s
       else (case hostTrackInfo_' s of
               None \<Rightarrow> Returned () s
             | Some ti \<Rightarrow>
                 (case get ti of
                    None \<Rightarrow> Returned () s
                  | Some fetched \<Rightarrow>
                      Returned () (s\<lparr>hasTrackInfo_' := (fetched \<noteq> None), trackInfo_' := fetched\<rparr>)))))"

subsection \<open>The \<open>clap_plugin\<close> interface\<close>

text \<open>
  Every entry point takes the author's methods \<open>au\<close>, the handle \<open>plugin\<close> the host
  passes and the thread \<open>t\<close> the call is made on. \<open>ndebug\<close> says whether the build
  defines \<open>NDEBUG\<close>.
\<close>

definition clapInit ::
  "('a, 'p, 'v, 'e) author \<Rightarrow> bool \<Rightarrow> plugin_ref \<Rightarrow> thread \<Rightarrow> 'a plugin_state \<Rightarrow>
   (bool, 'a plugin_state) outcome" where
  "clapInit au ndebug plugin t s =
     andThen (from_plugin plugin s) (\<lambda>_ s.
     andThen (initInterfaces ndebug
                (s\<lparr>plugin_' := (plugin_' s)
                      \<lparr>slot_extension := Some ClapExtension,
                       slot_process := Some ClapProcess,
                       slot_activate := Some ClapActivate,
                       slot_deactivate := Some ClapDeactivate,
                       slot_start_processing := Some ClapStartProcessing,
                       slot_stop_processing := Some ClapStopProcessing\<rparr>\<rparr>)) (\<lambda>_ s.
     andThen (ensureMainThread t ''clap_plugin.init'' s) (\<lambda>_ s.
     andThen (initTrackInfo ndebug t s) (\<lambda>_ s.
       call_author CallInit (init au) s))))"

definition clapDeactivate ::
  "('a, 'p, 'v, 'e) author \<Rightarrow> plugin_ref \<Rightarrow> thread \<Rightarrow> 'a plugin_state \<Rightarrow>
   (unit, 'a plugin_state) outcome" where
  "clapDeactivate au plugin t s =
     andThen (from_plugin plugin s) (\<lambda>_ s.
     andThen (ensureMainThread t ''clap_plugin.deactivate'' s) (\<lambda>_ s.
       if \<not> isActive_' s then Returned () (hostMisbehaving ''The plugin was deactivated twice.'' s)
       else call_author CallDeactivate (deactivate au) s))"

definition clapActivate ::
  "('a, 'p, 'v, 'e) author \<Rightarrow> bool \<Rightarrow> plugin_ref \<Rightarrow> thread \<Rightarrow> int \<Rightarrow> 'a plugin_state \<Rightarrow>
   (bool, 'a plugin_state) outcome" where
  "clapActivate au ndebug plugin t sample_rate s =
     andThen (from_plugin plugin s) (\<lambda>_ s.
     andThen (ensureMainThread t ''clap_plugin.activate'' s) (\<lambda>_ s.
     andThen
       (if isActive_' s then
          (if sample_rate \<noteq> sampleRate_' s then
             clapDeactivate au plugin t
               (hostMisbehaving
                  (''The plugin was activated twice and with different sample rates: '' @
                   show_int (sampleRate_' s) @ '' and '' @ show_int sample_rate @
                   ''. The host must deactivate the plugin first.'' @ endl @
                   ''Simulating deactivation.'')
                  (hostMisbehaving ''Plugin was activated twice'' s))
           else Returned () (hostMisbehaving ''Plugin was activated twice'' s))
        else Returned () s) (\<lambda>_ s.
       if sample_rate \<le> 0 then
         Returned False
           (hostMisbehaving
              (''The plugin was activated with an invalid sample rates: '' @ show_int sample_rate) s)
       else
         andThen (cassert ndebug (\<not> isActive_' s) s) (\<lambda>_ s.
         andThen (cassert ndebug (sampleRate_' s = 0) s) (\<lambda>_ s.
         andThen (call_author (CallActivate sample_rate) (activate au sample_rate) s) (\<lambda>ok s.
           if \<not> ok then
             andThen (cassert ndebug (\<not> isActive_' s) s) (\<lambda>_ s.
             andThen (cassert ndebug (sampleRate_' s = 0) s) (\<lambda>_ s.
               Returned False s))
           else Returned True (s\<lparr>isActive_' := True, sampleRate_' := sample_rate\<rparr>)))))))"

definition clapStartProcessing ::
  "('a, 'p, 'v, 'e) author \<Rightarrow> plugin_ref \<Rightarrow> thread \<Rightarrow> 'a plugin_state \<Rightarrow>
   (bool, 'a plugin_state) outcome" where
  "clapStartProcessing au plugin t s =
     andThen (from_plugin plugin s) (\<lambda>_ s.
     andThen (ensureAudioThread t ''clap_plugin.start_processing'' s) (\<lambda>_ s.
       if \<not> isActive_' s then
         Returned False
           (hostMisbehaving ''Host called clap_plugin.start_processing() on a deactivated plugin'' s)
       else if isProcessing_' s then
         Returned True (hostMisbehaving ''Host called clap_plugin.start_processing() twice'' s)
       else
         andThen (call_author CallStartProcessing (startProcessing au) s) (\<lambda>ok s.
           Returned ok (s\<lparr>isProcessing_' := ok\<rparr>))))"

definition clapStopProcessing ::
  "('a, 'p, 'v, 'e) author \<Rightarrow> plugin_ref \<Rightarrow> thread \<Rightarrow> 'a plugin_state \<Rightarrow>
   (unit, 'a plugin_state) outcome" where
  "clapStopProcessing au plugin t s =
     andThen (from_plugin plugin s) (\<lambda>_ s.
     andThen (ensureAudioThread t ''clap_plugin.stop_processing'' s) (\<lambda>_ s.
       if \<not> isActive_' s then
         Returned ()
           (hostMisbehaving ''Host called clap_plugin.stop_processing() on a deactivated plugin'' s)
       else if \<not> isProcessing_' s then
         Returned () (hostMisbehaving ''Host called clap_plugin.stop_processing() twice'' s)
       else
         andThen (call_author CallStopProcessing (stopProcessing au) s) (\<lambda>_ s.
           Returned () (s\<lparr>isProcessing_' := False\<rparr>))))"

definition clapProcess ::
  "('a, 'p, 'v, 'e) author \<Rightarrow> plugin_ref \<Rightarrow> thread \<Rightarrow> 'p \<Rightarrow> 'a plugin_state \<Rightarrow>
   (clap_process_status, 'a plugin_state) outcome" where
  "clapProcess au plugin t block s =
     andThen (from_plugin plugin s) (\<lambda>_ s.
     andThen (ensureAudioThread t ''clap_plugin.process'' s) (\<lambda>_ s.
       if \<not> isActive_' s then
         Returned CLAP_PROCESS_ERROR
           (hostMisbehaving ''Host called clap_plugin.process() on a deactivated plugin'' s)
       else if \<not> isProcessing_' s then
         Returned CLAP_PROCESS_ERROR
           (hostMisbehaving
              ''Host called clap_plugin.process() without calling clap_plugin.start_processing()'' s)
       else call_author CallProcess (process au block) s))"

text \<open>
  The extension ids. \<open>CLAP_EXT_RENDER\<close> is defined in include/clap/ext/render.h; the
  headers of the other three are not part of the sources at hand, so their values are
  parameters.
\<close>

definition CLAP_EXT_RENDER :: string where
  "CLAP_EXT_RENDER = ''clap/render''"

record clap_ext_ids =
  CLAP_EXT_TRACK_INFO :: string
  CLAP_EXT_AUDIO_PORTS :: string
  CLAP_EXT_PARAMS :: string

text \<open>
  What \<open>clapExtension\<close> returns, when not null: the address of one of the adapter's four
  tables, or whatever the author's \<open>extension\<close> returned.
\<close>

datatype 'e interface =
    PluginRender | PluginTrackInfo | PluginAudioPorts | PluginParams | AuthorInterface 'e

definition clapExtension ::
  "('a, 'p, 'v, 'e) author \<Rightarrow> clap_ext_ids \<Rightarrow> plugin_ref \<Rightarrow> thread \<Rightarrow> string \<Rightarrow> 'a plugin_state \<Rightarrow>
   ('e interface option, 'a plugin_state) outcome" where
  "clapExtension au ids plugin t ext_id s =
     andThen (from_plugin plugin s) (\<lambda>_ s.
     andThen (ensureMainThread t ''clap_plugin.extension'' s) (\<lambda>_ s.
       if ext_id = CLAP_EXT_RENDER then Returned (Some PluginRender) s
       else if ext_id = CLAP_EXT_TRACK_INFO ids then Returned (Some PluginTrackInfo) s
       else
         andThen (if ext_id = CLAP_EXT_AUDIO_PORTS ids
                  then call_const CallImplementsAudioPorts (implementsAudioPorts au) s
                  else Returned False s) (\<lambda>audio_ports s.
           if audio_ports then Returned (Some PluginAudioPorts) s
           else
             andThen (if ext_id = CLAP_EXT_PARAMS ids
                      then call_const CallImplementsParams (implementsParams au) s
                      else Returned False s) (\<lambda>params s.
               if params then Returned (Some PluginParams) s
               else
                 andThen (from_plugin plugin s) (\<lambda>_ s.
                 andThen (call_author (CallExtension ext_id) (extension au ext_id) s) (\<lambda>r s.
                   Returned (map_option AuthorInterface r) s))))))"

subsection \<open>The audio-ports and params interfaces\<close>

text \<open>
  Modelled from the spec: the accessor \<open>isActive()\<close> is declared in plugin.hh, which is
  not part of the sources at hand; it reads the lifecycle state.
\<close>

definition isActive :: "'a plugin_state \<Rightarrow> bool" where
  "isActive s = isActive_' s"

definition clapAudioPortsSetConfig ::
  "('a, 'p, 'v, 'e) author \<Rightarrow> plugin_ref \<Rightarrow> thread \<Rightarrow> clap_id \<Rightarrow> 'a plugin_state \<Rightarrow>
   (bool, 'a plugin_state) outcome" where
  "clapAudioPortsSetConfig au plugin t config_id s =
     andThen (from_plugin plugin s) (\<lambda>_ s.
     andThen (ensureMainThread t ''clap_plugin_audio_ports.get_config'' s) (\<lambda>_ s.
       call_author (CallAudioPortsSetConfig config_id) (audioPortsSetConfig au config_id)
         (if isActive s
          then hostMisbehaving
                 ''it is illegal to call clap_audio_ports.set_config if the plugin is active'' s
          else s)))"

definition clapParamsCount ::
  "('a, 'p, 'v, 'e) author \<Rightarrow> plugin_ref \<Rightarrow> thread \<Rightarrow> 'a plugin_state \<Rightarrow>
   (32 word, 'a plugin_state) outcome" where
  "clapParamsCount au plugin t s =
     andThen (from_plugin plugin s) (\<lambda>_ s.
     andThen (ensureMainThread t ''clap_plugin_params.count'' s) (\<lambda>_ s.
       call_const CallParamsCount (paramsCount au) s))"

text \<open>
  \<open>param_index\<close> is an \<open>int32_t\<close> and \<open>count\<close> a \<open>uint32_t\<close>: in
  \<open>param_index >= count\<close> the index is converted to \<open>uint32_t\<close>, so the comparison is
  the unsigned one of the two bit patterns (the order of \<open>32 word\<close>). The message prints
  the index signed.
\<close>

definition clapParamsIinfo ::
  "('a, 'p, 'v, 'e) author \<Rightarrow> plugin_ref \<Rightarrow> thread \<Rightarrow> 32 word \<Rightarrow> 'a plugin_state \<Rightarrow>
   (clap_param_info option, 'a plugin_state) outcome" where
  "clapParamsIinfo au plugin t param_index s =
     andThen (from_plugin plugin s) (\<lambda>_ s.
     andThen (ensureMainThread t ''clap_plugin_params.info'' s) (\<lambda>_ s.
     andThen (clapParamsCount au plugin t s) (\<lambda>count s.
       if param_index \<ge> count then
         Returned None
           (hostMisbehaving
              (''called clap_plugin_params.info with an index out of bounds: '' @
               show_int32 param_index @ '' >= '' @ show_uint32 count) s)
       else call_const (CallParamsInfo param_index) (paramsInfo au param_index) s)))"

text \<open>
  The loop of \<open>isValidParamId\<close>, from index \<open>i\<close> on: \<open>uint32_t i\<close> counts up to
  \<open>count\<close>; a failing \<open>paramsInfo\<close> is skipped. Below \<open>count\<close>, \<open>++i\<close> does not wrap,
  which is why the loop ends.
\<close>

function isValidParamId_loop ::
  "('a, 'p, 'v, 'e) author \<Rightarrow> clap_id \<Rightarrow> 32 word \<Rightarrow> 32 word \<Rightarrow> 'a plugin_state \<Rightarrow>
   (bool, 'a plugin_state) outcome" where
  "isValidParamId_loop au param_id count i s =
     (if i < count then
        (case paramsInfo au i (author_state s) of
           None \<Rightarrow> isValidParamId_loop au param_id count (i + 1) (emit (AuthorCall (CallParamsInfo i)) s)
         | Some info \<Rightarrow>
             if info_id info = param_id then Returned True (emit (AuthorCall (CallParamsInfo i)) s)
             else isValidParamId_loop au param_id count (i + 1) (emit (AuthorCall (CallParamsInfo i)) s))
      else Returned False s)"
  by pat_completeness auto
termination
proof -
  have step: "unat count - unat (i + 1) < unat count - unat i"
    if "i < count" for i count :: "32 word"
  proof -
    from that have below: "unat i < unat count"
      by (simp add: word_less_nat_alt)
    moreover have "unat count < 2 ^ 32"
      using unsigned_less [of count] by simp
    ultimately have "unat i + 1 < 2 ^ 32"
      by simp
    then have "unat (i + 1) = Suc (unat i)"
      by (simp add: unat_word_ariths)
    with below show ?thesis
      by simp
  qed
  show ?thesis
    by (relation "measure (\<lambda>(au, param_id, count, i, s). unat count - unat i)")
       (simp_all add: step)
qed

declare isValidParamId_loop.simps [simp del]

definition isValidParamId ::
  "('a, 'p, 'v, 'e) author \<Rightarrow> thread \<Rightarrow> clap_id \<Rightarrow> 'a plugin_state \<Rightarrow>
   (bool, 'a plugin_state) outcome" where
  "isValidParamId au t param_id s =
     andThen (checkMainThread t s) (\<lambda>_ s.
     andThen (call_const CallParamsCount (paramsCount au) s) (\<lambda>count s.
       isValidParamId_loop au param_id count 0 s))"

definition clapParamsEnumValue ::
  "('a, 'p, 'v, 'e) author \<Rightarrow> plugin_ref \<Rightarrow> thread \<Rightarrow> clap_id \<Rightarrow> 32 word \<Rightarrow> 'a plugin_state \<Rightarrow>
   ('v option, 'a plugin_state) outcome" where
  "clapParamsEnumValue au plugin t param_id value_index s =
     andThen (from_plugin plugin s) (\<lambda>_ s.
     andThen (ensureMainThread t ''clap_plugin_params.enum_value'' s) (\<lambda>_ s.
     andThen (isValidParamId au t param_id s) (\<lambda>valid s.
       if \<not> valid then
         Returned None
           (hostMisbehaving
              (''clap_plugin_params.enum_value called with invalid param_id: '' @
               show_uint32 param_id) s)
       else call_author (CallParamsEnumValue param_id value_index)
              (paramsEnumValue au param_id value_index) s)))"

definition clapParamsValue ::
  "('a, 'p, 'v, 'e) author \<Rightarrow> plugin_ref \<Rightarrow> thread \<Rightarrow> clap_id \<Rightarrow> 'a plugin_state \<Rightarrow>
   ('v option, 'a plugin_state) outcome" where
  "clapParamsValue au plugin t param_id s =
     andThen (from_plugin plugin s) (\<lambda>_ s.
     andThen (ensureMainThread t ''clap_plugin_params.value'' s) (\<lambda>_ s.
     andThen (isValidParamId au t param_id s) (\<lambda>valid s.
       if \<not> valid then
         Returned None
           (hostMisbehaving
              (''clap_plugin_params.value called with invalid param_id: '' @
               show_uint32 param_id) s)
       else call_author (CallParamsValue param_id) (paramsValue au param_id) s)))"

definition clapParamsSetValue ::
  "('a, 'p, 'v, 'e) author \<Rightarrow> plugin_ref \<Rightarrow> thread \<Rightarrow> clap_id \<Rightarrow> 'v \<Rightarrow> 'v \<Rightarrow> 'a plugin_state \<Rightarrow>
   (bool, 'a plugin_state) outcome" where
  "clapParamsSetValue au plugin t param_id val modulation s =
     andThen (from_plugin plugin s) (\<lambda>_ s.
     andThen (ensureMainThread t ''clap_plugin_params.set_value'' s) (\<lambda>_ s.
       if isActive_' s then
         Returned False
           (hostMisbehaving
              ''it is forbidden to call clap_plugin_params.set_value() if the plugin is activated'' s)
       else
         andThen (isValidParamId au t param_id s) (\<lambda>valid s.
           if \<not> valid then
             Returned False
               (hostMisbehaving
                  (''clap_plugin_params.set_value called with invalid param_id: '' @
                   show_uint32 param_id) s)
           else call_author (CallParamsSetValue param_id)
                  (paramsSetValue au param_id val modulation) s)))"

definition clapParamsValueToText ::
  "('a, 'p, 'v, 'e) author \<Rightarrow> plugin_ref \<Rightarrow> thread \<Rightarrow> clap_id \<Rightarrow> 'v \<Rightarrow> 32 word \<Rightarrow> 'a plugin_state \<Rightarrow>
   (string option, 'a plugin_state) outcome" where
  "clapParamsValueToText au plugin t param_id val buf_size s =
     andThen (from_plugin plugin s) (\<lambda>_ s.
     andThen (ensureMainThread t ''clap_plugin_params.value_to_text'' s) (\<lambda>_ s.
     andThen (isValidParamId au t param_id s) (\<lambda>valid s.
       if \<not> valid then
         Returned None
           (hostMisbehaving
              (''clap_plugin_params.value_to_text called with invalid param_id: '' @
               show_uint32 param_id) s)
       else call_author (CallParamsValueToText param_id)
              (paramsValueToText au param_id val buf_size) s)))"

definition clapParamsTextToValue ::
  "('a, 'p, 'v, 'e) author \<Rightarrow> plugin_ref \<Rightarrow> thread \<Rightarrow> clap_id \<Rightarrow> string \<Rightarrow> 'a plugin_state \<Rightarrow>
   ('v option, 'a plugin_state) outcome" where
  "clapParamsTextToValue au plugin t param_id display s =
     andThen (from_plugin plugin s) (\<lambda>_ s.
     andThen (ensureMainThread t ''clap_plugin_params.text_to_value'' s) (\<lambda>_ s.
     andThen (isValidParamId au t param_id s) (\<lambda>valid s.
       if \<not> valid then
         Returned None
           (hostMisbehaving
              (''clap_plugin_params.text_to_value called with invalid param_id: '' @
               show_uint32 param_id) s)
       else call_author (CallParamsTextToValue param_id)
              (paramsTextToValue au param_id display) s)))"

subsection \<open>A sample host and a sample author\<close>

text \<open>
  Concrete inputs for the examples below. \<open>bare_host\<close> has no extension lookup at all.
  \<open>checking_host\<close> offers a log and a complete thread check; \<open>main_only_host\<close> offers
  a thread check whose \<open>is_audio_thread\<close> is null, \<open>audio_only_host\<close> one whose
  \<open>is_main_thread\<close> is null. \<open>counting_author ok\<close> counts the
  calls of its state-changing methods in its state; its fallible methods return \<open>ok\<close>;
  it has two parameters, with ids 10 and 20.
\<close>

definition no_tables :: host_tables where
  "no_tables =
     \<lparr> ext_log = None, ext_thread_check = None, ext_thread_pool = None,
       ext_audio_ports = None, ext_event_loop = None, ext_event_filter = None,
       ext_file_reference = None, ext_latency = None, ext_gui = None, ext_params = None,
       ext_track_info = None, ext_state = None, ext_note_name = None \<rparr>"

definition bare_host :: clap_host where
  "bare_host = \<lparr> host_extension = None \<rparr>"

definition checking_host :: clap_host where
  "checking_host =
     \<lparr> host_extension = Some (no_tables
         \<lparr> ext_log := Some \<lparr> log_fn = True \<rparr>,
           ext_thread_check :=
             Some \<lparr> is_main_thread = Some (\<lambda>t. t = MainThread),
                    is_audio_thread = Some (\<lambda>t. t = AudioThread) \<rparr> \<rparr>) \<rparr>"

definition main_only_host :: clap_host where
  "main_only_host =
     \<lparr> host_extension = Some (no_tables
         \<lparr> ext_thread_check :=
             Some \<lparr> is_main_thread = Some (\<lambda>t. t = MainThread),
                    is_audio_thread = None \<rparr> \<rparr>) \<rparr>"

definition audio_only_host :: clap_host where
  "audio_only_host =
     \<lparr> host_extension = Some (no_tables
         \<lparr> ext_thread_check :=
             Some \<lparr> is_main_thread = None,
                    is_audio_thread = Some (\<lambda>t. t = AudioThread) \<rparr> \<rparr>) \<rparr>"

definition counting_author :: "bool \<Rightarrow> (nat, unit, int, nat) author" where
  "counting_author ok =
     \<lparr> init = (\<lambda>n. (ok, Suc n)),
       activate = (\<lambda>sample_rate n. (ok, Suc n)),
       deactivate = (\<lambda>n. ((), Suc n)),
       startProcessing = (\<lambda>n. (ok, Suc n)),
       stopProcessing = (\<lambda>n. ((), Suc n)),
       process = (\<lambda>block n. (CLAP_PROCESS_CONTINUE, Suc n)),
       extension = (\<lambda>ext_id n. (if ext_id = ''author/custom'' then Some 7 else None, Suc n)),
       implementsAudioPorts = (\<lambda>n. True),
       audioPortsSetConfig = (\<lambda>config_id n. (ok, Suc n)),
       implementsParams = (\<lambda>n. False),
       paramsCount = (\<lambda>n. 2),
       paramsInfo = (\<lambda>i n. if i = 0 then Some \<lparr> info_id = 10 \<rparr>
                            else if i = 1 then Some \<lparr> info_id = 20 \<rparr> else None),
       paramsEnumValue = (\<lambda>param_id value_index n. (Some 1, Suc n)),
       paramsValue = (\<lambda>param_id n. (Some 2, Suc n)),
       paramsSetValue = (\<lambda>param_id val modulation n. (ok, Suc n)),
       paramsValueToText = (\<lambda>param_id val buf_size n. (Some ''two'', Suc n)),
       paramsTextToValue = (\<lambda>param_id display n. (Some 3, Suc n)) \<rparr>"

definition sample_ids :: clap_ext_ids where
  "sample_ids =
     \<lparr> CLAP_EXT_TRACK_INFO = ''clap/track-info'',
       CLAP_EXT_AUDIO_PORTS = ''clap/audio-ports'',
       CLAP_EXT_PARAMS = ''clap/params'' \<rparr>"

text \<open>
  An instance after a successful \<open>init\<close>, and after a successful \<open>activate(44100)\<close> and
  \<open>start_processing\<close> on top of it, each on its proper thread.
\<close>

definition inactive_instance :: "clap_host \<Rightarrow> nat plugin_state" where
  "inactive_instance host =
     state_of (clapInit (counting_author True) False ThisPlugin MainThread (Plugin 0 host 0))"

definition active_instance :: "clap_host \<Rightarrow> nat plugin_state" where
  "active_instance host =
     state_of (clapActivate (counting_author True) False ThisPlugin MainThread 44100
                 (inactive_instance host))"

definition processing_instance :: "clap_host \<Rightarrow> nat plugin_state" where
  "processing_instance host =
     state_of (clapStartProcessing (counting_author True) ThisPlugin AudioThread
                 (active_instance host))"

subsection \<open>Notions used to state the properties of the parameter queries\<close>

text \<open>
  These are not code. \<open>reports_id\<close> is the spec's notion of a valid parameter id: some
  index below \<open>paramsCount()\<close> has a successful \<open>paramsInfo\<close> reporting that id.
  \<open>is_scan_event\<close> holds of the calls \<open>isValidParamId\<close> makes to the author.
  \<open>rejected_with\<close> says of the outcome of a query that it returned the failure value,
  left the author's state alone, and added to the trace only scan calls followed by one
  misbehaviour report. \<open>delegated_to\<close> says that it returned what the author's method
  returned, with the state that method left, and added to the trace only scan calls
  followed by the call of that method.
\<close>

definition reports_id :: "('a, 'p, 'v, 'e) author \<Rightarrow> 'a \<Rightarrow> clap_id \<Rightarrow> bool" where
  "reports_id au a param_id =
     (\<exists>i < paramsCount au a. \<exists>info. paramsInfo au i a = Some info \<and> info_id info = param_id)"

fun is_scan_event :: "event \<Rightarrow> bool" where
  "is_scan_event (AuthorCall CallParamsCount) = True"
| "is_scan_event (AuthorCall (CallParamsInfo i)) = True"
| "is_scan_event _ = False"

definition rejected_with ::
  "'a plugin_state \<Rightarrow> ('r, 'a plugin_state) outcome \<Rightarrow> 'r \<Rightarrow> string \<Rightarrow> bool" where
  "rejected_with s out failure msg =
     (returned out = Some failure \<and>
      author_state (state_of out) = author_state s \<and>
      new_events s (state_of out) \<noteq> [] \<and>
      last (new_events s (state_of out)) = misbehaving_event s msg \<and>
      list_all is_scan_event (butlast (new_events s (state_of out))))"

definition delegated_to ::
  "'a plugin_state \<Rightarrow> ('r, 'a plugin_state) outcome \<Rightarrow> hook_call \<Rightarrow> 'r \<times> 'a \<Rightarrow> bool" where
  "delegated_to s out call result =
     (returned out = Some (fst result) \<and>
      author_state (state_of out) = snd result \<and>
      new_events s (state_of out) \<noteq> [] \<and>
      last (new_events s (state_of out)) = AuthorCall call \<and>
      list_all is_scan_event (butlast (new_events s (state_of out))))"

section \<open>Properties\<close>

subsection \<open>Basic facts\<close>

lemmas fixture_defs =
  inactive_instance_def active_instance_def processing_instance_def
  bare_host_def checking_host_def main_only_host_def audio_only_host_def no_tables_def
  counting_author_def
  Plugin_def clapInit_def clapActivate_def clapStartProcessing_def
  initInterfaces_def initInterface_def initTrackInfo_def canUseTrackInfo_def
  cassert_def from_plugin_def ensureMainThread_def ensureAudioThread_def checkMainThread_def
  mainThreadOk_def audioThreadOk_def call_author_def emit_def

lemma from_plugin_this [simp]: "from_plugin ThisPlugin s = Returned () s"
  by (simp add: from_plugin_def)

lemma ensureMainThread_ok: "mainThreadOk t s \<Longrightarrow> ensureMainThread t m s = Returned () s"
  by (simp add: ensureMainThread_def)

lemma ensureAudioThread_ok: "audioThreadOk t s \<Longrightarrow> ensureAudioThread t m s = Returned () s"
  by (simp add: ensureAudioThread_def)

lemma checkMainThread_ok: "mainThreadOk t s \<Longrightarrow> checkMainThread t s = Returned () s"
  by (simp add: checkMainThread_def)

lemma hostMisbehaving_emit: "hostMisbehaving msg s = emit (misbehaving_event s msg) s"
  by (simp add: hostMisbehaving_def plugin_log_def misbehaving_event_def)

lemma emit_fields [simp]:
  "isActive_' (emit e s) = isActive_' s"
  "isProcessing_' (emit e s) = isProcessing_' s"
  "sampleRate_' (emit e s) = sampleRate_' s"
  "author_state (emit e s) = author_state s"
  "plugin_' (emit e s) = plugin_' s"
  "hostThreadCheck_' (emit e s) = hostThreadCheck_' s"
  "hostLog_' (emit e s) = hostLog_' s"
  "trace (emit e s) = trace s @ [e]"
  by (simp_all add: emit_def)

lemma hostMisbehaving_fields [simp]:
  "isActive_' (hostMisbehaving msg s) = isActive_' s"
  "isProcessing_' (hostMisbehaving msg s) = isProcessing_' s"
  "sampleRate_' (hostMisbehaving msg s) = sampleRate_' s"
  "author_state (hostMisbehaving msg s) = author_state s"
  "plugin_' (hostMisbehaving msg s) = plugin_' s"
  "hostThreadCheck_' (hostMisbehaving msg s) = hostThreadCheck_' s"
  "hostLog_' (hostMisbehaving msg s) = hostLog_' s"
  "trace (hostMisbehaving msg s) = trace s @ [misbehaving_event s msg]"
  by (simp_all add: hostMisbehaving_emit)

lemma guards_after_report [simp]:
  "mainThreadOk t (hostMisbehaving msg s) = mainThreadOk t s"
  "audioThreadOk t (hostMisbehaving msg s) = audioThreadOk t s"
  "mainThreadOk t (emit e s) = mainThreadOk t s"
  "audioThreadOk t (emit e s) = audioThreadOk t s"
  "canUseHostLog (emit e s) = canUseHostLog s"
  by (simp_all add: mainThreadOk_def audioThreadOk_def canUseHostLog_def)

lemma new_events_self [simp]: "new_events s s = []"
  by (simp add: new_events_def)

lemma new_events_hostMisbehaving [simp]:
  "new_events s (hostMisbehaving msg s) = [misbehaving_event s msg]"
  by (simp add: new_events_def)

lemma new_events_call [simp]:
  "new_events s ((emit e s)\<lparr>author_state := a\<rparr>) = [e]"
  "new_events s (emit e s) = [e]"
  by (simp_all add: new_events_def emit_def)

lemma clapDeactivate_never_resets:
  "isActive_' (state_of (clapDeactivate au plugin t s)) = isActive_' s \<and>
   sampleRate_' (state_of (clapDeactivate au plugin t s)) = sampleRate_' s"
  by (cases plugin)
     (simp_all add: clapDeactivate_def from_plugin_def ensureMainThread_def call_author_def)

text \<open>The function table is written by the constructor and by the first lines of \<open>clapInit\<close> only.\<close>

lemma plugin_andThen:
  assumes "plugin_' (state_of m) = c"
    and "\<And>r s'. plugin_' s' = c \<Longrightarrow> plugin_' (state_of (f r s')) = c"
  shows "plugin_' (state_of (andThen m f)) = c"
  using assms by (cases m) simp_all

lemma initInterface_plugin:
  assumes "\<And>v s. plugin_' (set_ptr v s) = plugin_' s"
  shows "plugin_' (state_of (initInterface ndebug ptr set_ptr answer s)) = plugin_' s"
  using assms by (simp add: initInterface_def cassert_def split: option.splits)

lemma initInterfaces_plugin:
  "plugin_' (state_of (initInterfaces ndebug s)) = plugin_' s"
  unfolding initInterfaces_def
  apply (rule plugin_andThen, simp add: initInterface_plugin)+
  apply (simp add: initInterface_plugin)
  done

lemma guards_plugin:
  "plugin_' (state_of (ensureMainThread t m s)) = plugin_' s"
  "plugin_' (state_of (checkMainThread t s)) = plugin_' s"
  by (simp_all add: ensureMainThread_def checkMainThread_def)

lemma initTrackInfo_plugin:
  "plugin_' (state_of (initTrackInfo ndebug t s)) = plugin_' s"
  by (simp add: initTrackInfo_def checkMainThread_def cassert_def split: option.splits)

lemma call_author_plugin:
  "plugin_' (state_of (call_author c f s)) = plugin_' s"
  by (simp add: call_author_def)

text \<open>
  Nothing \<open>clapInit\<close> does before the author's \<open>init\<close> touches the author's state, and
  what \<open>clapInit\<close> returns is what the author's \<open>init\<close> returned.
\<close>

lemma andThen_Returned:
  assumes "andThen m f = Returned r s'"
  obtains q s1 where "m = Returned q s1" and "f q s1 = Returned r s'"
  using assms by (cases m) simp_all

lemma author_andThen:
  assumes "author_state (state_of m) = c"
    and "\<And>r s'. author_state s' = c \<Longrightarrow> author_state (state_of (f r s')) = c"
  shows "author_state (state_of (andThen m f)) = c"
  using assms by (cases m) simp_all

lemma initInterface_author:
  assumes "\<And>v s. author_state (set_ptr v s) = author_state s"
  shows "author_state (state_of (initInterface ndebug ptr set_ptr answer s)) = author_state s"
  using assms by (simp add: initInterface_def cassert_def split: option.splits)

lemma initInterfaces_author:
  "author_state (state_of (initInterfaces ndebug s)) = author_state s"
  unfolding initInterfaces_def
  apply (rule author_andThen, simp add: initInterface_author)+
  apply (simp add: initInterface_author)
  done

lemma guards_author:
  "author_state (state_of (ensureMainThread t m s)) = author_state s"
  "author_state (state_of (checkMainThread t s)) = author_state s"
  by (simp_all add: ensureMainThread_def checkMainThread_def)

lemma initTrackInfo_author:
  "author_state (state_of (initTrackInfo ndebug t s)) = author_state s"
  by (simp add: initTrackInfo_def checkMainThread_def cassert_def split: option.splits)

lemma clapInit_returns_author_flag:
  assumes "clapInit au ndebug ThisPlugin t s = Returned r s'"
  shows "r = fst (init au (author_state s))"
proof -
  let ?s0 = "s\<lparr>plugin_' := (plugin_' s)
                      \<lparr>slot_extension := Some ClapExtension,
                       slot_process := Some ClapProcess,
                       slot_activate := Some ClapActivate,
                       slot_deactivate := Some ClapDeactivate,
                       slot_start_processing := Some ClapStartProcessing,
                       slot_stop_processing := Some ClapStopProcessing\<rparr>\<rparr>"
  from assms obtain q1 s1 where
    interfaces: "initInterfaces ndebug ?s0 = Returned q1 s1"
    and rest1: "andThen (ensureMainThread t ''clap_plugin.init'' s1) (\<lambda>_ s.
                  andThen (initTrackInfo ndebug t s) (\<lambda>_ s. call_author CallInit (init au) s))
                = Returned r s'"
    unfolding clapInit_def from_plugin_this andThen.simps
    by (rule andThen_Returned)
  from rest1 obtain q2 s2 where
    guard: "ensureMainThread t ''clap_plugin.init'' s1 = Returned q2 s2"
    and rest2: "andThen (initTrackInfo ndebug t s2) (\<lambda>_ s. call_author CallInit (init au) s)
                = Returned r s'"
    by (rule andThen_Returned)
  from rest2 obtain q3 s3 where
    track: "initTrackInfo ndebug t s2 = Returned q3 s3"
    and hook: "call_author CallInit (init au) s3 = Returned r s'"
    by (rule andThen_Returned)
  have "author_state s1 = author_state ?s0"
    using initInterfaces_author [of ndebug ?s0] interfaces by simp
  moreover have "author_state s2 = author_state s1"
    using guards_author(1) [of t "''clap_plugin.init''" s1] guard by simp
  moreover have "author_state s3 = author_state s2"
    using initTrackInfo_author [of ndebug t s2] track by simp
  ultimately have "author_state s3 = author_state s"
    by simp
  with hook show ?thesis
    by (simp add: call_author_def)
qed

text \<open>A negative \<open>int32_t\<close>, read as \<open>uint32_t\<close>, is at least \<open>2^31\<close>.\<close>

lemma negative_index_is_large:
  fixes w c :: "32 word"
  assumes "sint w < 0" and "unat c < 2 ^ 31"
  shows "c \<le> w"
proof -
  have "2 ^ 31 \<le> uint w"
  proof (rule ccontr)
    assume "\<not> 2 ^ 31 \<le> uint w"
    then have "uint w < 2 ^ 31"
      by simp
    moreover have "- (2 ^ 31) \<le> uint w"
      by (rule order_trans [of _ 0]) simp_all
    ultimately have "signed_take_bit 31 (uint w) = uint w"
      by (rule signed_take_bit_int_eq_self [rotated])
    then have "sint w = uint w"
      by (simp add: sint_uint)
    with assms(1) show False
      by simp
  qed
  then have "2 ^ 31 \<le> unat w"
    by (simp add: unat_eq_nat_uint le_nat_iff del: nat_uint_eq)
  with assms(2) show ?thesis
    by (simp add: word_le_nat_alt)
qed

subsection \<open>Thread guards\<close>




subsection \<open>Lifecycle\<close>

text \<open>
  Claim C3, as the code has it. The constructor leaves the six slots \<open>extension\<close>,
  \<open>process\<close>, \<open>activate\<close>, \<open>deactivate\<close>, \<open>start_processing\<close> and \<open>stop_processing\<close>
  null and sets only \<open>init\<close> and \<open>destroy\<close>. \<open>clapInit\<close> assigns the six slots in its
  first lines, before the author's \<open>init\<close> runs and whatever it returns: after any call
  of \<open>clapInit\<close> on the instance, however it ends, the six slots hold the adapter's entry
  points. When \<open>clapInit\<close> returns, its result is the flag the author's \<open>init\<close> returned,
  so this includes the calls in which the author's \<open>init\<close> fails.
\<close>

theorem init_wires_slots:
  "plugin_' (Plugin descriptor host a0) =
     \<lparr> desc = descriptor,
       slot_init = Some ClapInit,
       slot_destroy = Some ClapDestroy,
       slot_extension = None,
       slot_process = None,
       slot_activate = None,
       slot_deactivate = None,
       slot_start_processing = None,
       slot_stop_processing = None \<rparr> \<and>
   plugin_' (state_of (clapInit au ndebug ThisPlugin t s)) =
     (plugin_' s)
       \<lparr> slot_extension := Some ClapExtension,
         slot_process := Some ClapProcess,
         slot_activate := Some ClapActivate,
         slot_deactivate := Some ClapDeactivate,
         slot_start_processing := Some ClapStartProcessing,
         slot_stop_processing := Some ClapStopProcessing \<rparr> \<and>
   (clapInit au ndebug ThisPlugin t s = Returned ok s' \<longrightarrow> ok = fst (init au (author_state s)))"
proof (intro conjI impI)
  show "plugin_' (Plugin descriptor host a0) =
     \<lparr> desc = descriptor, slot_init = Some ClapInit, slot_destroy = Some ClapDestroy,
       slot_extension = None, slot_process = None, slot_activate = None,
       slot_deactivate = None, slot_start_processing = None, slot_stop_processing = None \<rparr>"
    by (simp add: Plugin_def)
next
  show "plugin_' (state_of (clapInit au ndebug ThisPlugin t s)) =
     (plugin_' s)
       \<lparr> slot_extension := Some ClapExtension,
         slot_process := Some ClapProcess,
         slot_activate := Some ClapActivate,
         slot_deactivate := Some ClapDeactivate,
         slot_start_processing := Some ClapStartProcessing,
         slot_stop_processing := Some ClapStopProcessing \<rparr>"
    unfolding clapInit_def from_plugin_this andThen.simps
    apply (rule plugin_andThen)
     apply (simp add: initInterfaces_plugin)
    apply (rule plugin_andThen)
     apply (simp add: guards_plugin)
    apply (rule plugin_andThen)
     apply (simp add: initTrackInfo_plugin)
    apply (simp add: call_author_plugin)
    done
next
  assume "clapInit au ndebug ThisPlugin t s = Returned ok s'"
  then show "ok = fst (init au (author_state s))"
    by (rule clapInit_returns_author_flag)
qed

text \<open>
  The theorem on a fresh instance, with an author whose \<open>init\<close> succeeds and with one
  whose \<open>init\<close> fails.
\<close>

theorem init_wires_slots_witness:
  "slot_process (plugin_' (Plugin 0 checking_host (0::nat))) = None \<and>
   slot_activate (plugin_' (Plugin 0 checking_host (0::nat))) = None \<and>
   clapInit (counting_author True) False ThisPlugin MainThread (Plugin 0 checking_host 0)
     = Returned True (inactive_instance checking_host) \<and>
   fst (init (counting_author True) (author_state (Plugin 0 checking_host (0::nat)))) = True \<and>
   slot_process (plugin_' (state_of (clapInit (counting_author True) False ThisPlugin MainThread
                                       (Plugin 0 checking_host 0)))) = Some ClapProcess \<and>
   slot_activate (plugin_' (state_of (clapInit (counting_author True) False ThisPlugin MainThread
                                        (Plugin 0 checking_host 0)))) = Some ClapActivate \<and>
   returned (clapInit (counting_author False) False ThisPlugin MainThread (Plugin 0 checking_host 0))
     = Some False \<and>
   fst (init (counting_author False) (author_state (Plugin 0 checking_host (0::nat)))) = False \<and>
   slot_process (plugin_' (state_of (clapInit (counting_author False) False ThisPlugin MainThread
                                       (Plugin 0 checking_host 0)))) = Some ClapProcess \<and>
   slot_activate (plugin_' (state_of (clapInit (counting_author False) False ThisPlugin MainThread
                                        (Plugin 0 checking_host 0)))) = Some ClapActivate"
proof -
  have succeeds: "clapInit (counting_author True) False ThisPlugin MainThread (Plugin 0 checking_host 0)
      = Returned True (inactive_instance checking_host)"
    by (simp add: fixture_defs)
  have fails: "returned (clapInit (counting_author False) False ThisPlugin MainThread
      (Plugin 0 checking_host 0)) = Some False"
    by (simp add: fixture_defs)
  have hook: "fst (init (counting_author flag) a) = flag" for flag a
    by (simp add: counting_author_def)
  show ?thesis
    using succeeds fails hook
      init_wires_slots [where descriptor = 0 and host = checking_host and ?a0.0 = "0::nat"
        and au = "counting_author True" and ndebug = False and t = MainThread
        and s = "Plugin 0 checking_host 0" and ok = True and s' = "inactive_instance checking_host"]
      init_wires_slots [where descriptor = 0 and host = checking_host and ?a0.0 = "0::nat"
        and au = "counting_author False" and ndebug = False and t = MainThread
        and s = "Plugin 0 checking_host 0"]
    by simp
qed

text \<open>
  Claim C3 as stated does not hold after a failed \<open>init\<close>. The author's \<open>init\<close> here
  returns false, and so does \<open>clapInit\<close>; the six slots, null before the call, are all
  set after it.
\<close>

theorem failed_init_slots_counterexample:
  "slot_process (plugin_' (Plugin 0 checking_host (0::nat))) = None \<and>
   fst (init (counting_author False) (0::nat)) = False \<and>
   returned (clapInit (counting_author False) False ThisPlugin MainThread (Plugin 0 checking_host 0))
     = Some False \<and>
   slot_extension (plugin_' (state_of (clapInit (counting_author False) False ThisPlugin MainThread
                                         (Plugin 0 checking_host 0)))) = Some ClapExtension \<and>
   slot_process (plugin_' (state_of (clapInit (counting_author False) False ThisPlugin MainThread
                                       (Plugin 0 checking_host 0)))) = Some ClapProcess \<and>
   slot_activate (plugin_' (state_of (clapInit (counting_author False) False ThisPlugin MainThread
                                        (Plugin 0 checking_host 0)))) = Some ClapActivate \<and>
   slot_deactivate (plugin_' (state_of (clapInit (counting_author False) False ThisPlugin MainThread
                                          (Plugin 0 checking_host 0)))) = Some ClapDeactivate \<and>
   slot_start_processing (plugin_' (state_of (clapInit (counting_author False) False ThisPlugin MainThread
                                                (Plugin 0 checking_host 0)))) = Some ClapStartProcessing \<and>
   slot_stop_processing (plugin_' (state_of (clapInit (counting_author False) False ThisPlugin MainThread
                                               (Plugin 0 checking_host 0)))) = Some ClapStopProcessing"
  by (simp add: fixture_defs)

text \<open>
  Claim C4. On an inactive instance (not active, recorded sample rate 0), for a call
  that passes the main-thread guard: \<open>activate\<close> with a sample rate \<open>\<le> 0\<close> returns false,
  reports a misbehaviour diagnostic and leaves the instance inactive with sample rate
  0, the report being the one event the call adds to the trace (a line for the host's
  log when the host offers one, a line on \<open>std::clog\<close> otherwise) and the author not being
  called; with a sample rate \<open>> 0\<close> and an author's \<open>activate\<close> that fails it returns false and
  the instance stays inactive with sample rate 0; with an author's \<open>activate\<close> that
  succeeds it returns true, the instance is active and the sample rate is recorded.
  This holds with and without assertions compiled in.
\<close>

theorem activate_from_inactive:
  assumes "\<not> isActive_' s" and "sampleRate_' s = 0" and "mainThreadOk t s"
  shows
   "(sample_rate \<le> 0 \<longrightarrow>
       clapActivate au ndebug ThisPlugin t sample_rate s =
         Returned False
           (hostMisbehaving
              (''The plugin was activated with an invalid sample rates: '' @ show_int sample_rate) s) \<and>
       new_events s (state_of (clapActivate au ndebug ThisPlugin t sample_rate s))
         = [if canUseHostLog s
            then HostLog CLAP_LOG_HOST_MISBEHAVING
                   (''The plugin was activated with an invalid sample rates: '' @ show_int sample_rate)
            else Clog (''The plugin was activated with an invalid sample rates: '' @
                       show_int sample_rate)] \<and>
       \<not> isActive_' (state_of (clapActivate au ndebug ThisPlugin t sample_rate s)) \<and>
       sampleRate_' (state_of (clapActivate au ndebug ThisPlugin t sample_rate s)) = 0) \<and>
    (0 < sample_rate \<and> \<not> fst (activate au sample_rate (author_state s)) \<longrightarrow>
       returned (clapActivate au ndebug ThisPlugin t sample_rate s) = Some False \<and>
       new_events s (state_of (clapActivate au ndebug ThisPlugin t sample_rate s))
         = [AuthorCall (CallActivate sample_rate)] \<and>
       \<not> isActive_' (state_of (clapActivate au ndebug ThisPlugin t sample_rate s)) \<and>
       sampleRate_' (state_of (clapActivate au ndebug ThisPlugin t sample_rate s)) = 0) \<and>
    (0 < sample_rate \<and> fst (activate au sample_rate (author_state s)) \<longrightarrow>
       returned (clapActivate au ndebug ThisPlugin t sample_rate s) = Some True \<and>
       new_events s (state_of (clapActivate au ndebug ThisPlugin t sample_rate s))
         = [AuthorCall (CallActivate sample_rate)] \<and>
       isActive_' (state_of (clapActivate au ndebug ThisPlugin t sample_rate s)) \<and>
       sampleRate_' (state_of (clapActivate au ndebug ThisPlugin t sample_rate s)) = sample_rate)"
  using assms
  by (simp add: clapActivate_def ensureMainThread_ok call_author_def cassert_def new_events_def
        misbehaving_event_def)

text \<open>
  The theorem on a freshly initialised instance: \<open>activate(0)\<close>, then \<open>activate(48000)\<close>
  with a failing and with a succeeding author.
\<close>

theorem activate_from_inactive_witness:
  "\<not> isActive_' (inactive_instance checking_host) \<and>
   sampleRate_' (inactive_instance checking_host) = 0 \<and>
   mainThreadOk MainThread (inactive_instance checking_host) \<and>
   (0::int) \<le> 0 \<and>
   clapActivate (counting_author True) False ThisPlugin MainThread 0 (inactive_instance checking_host)
     = Returned False
         (hostMisbehaving (''The plugin was activated with an invalid sample rates: '' @ show_int 0)
            (inactive_instance checking_host)) \<and>
   new_events (inactive_instance checking_host)
     (state_of (clapActivate (counting_author True) False ThisPlugin MainThread 0
                  (inactive_instance checking_host)))
     = [HostLog CLAP_LOG_HOST_MISBEHAVING
          ''The plugin was activated with an invalid sample rates: 0''] \<and>
   new_events (inactive_instance bare_host)
     (state_of (clapActivate (counting_author True) False ThisPlugin MainThread (- 5)
                  (inactive_instance bare_host)))
     = [Clog ''The plugin was activated with an invalid sample rates: -5''] \<and>
   (0::int) < 48000 \<and>
   \<not> fst (activate (counting_author False) 48000 (author_state (inactive_instance checking_host))) \<and>
   returned (clapActivate (counting_author False) False ThisPlugin MainThread 48000
               (inactive_instance checking_host)) = Some False \<and>
   \<not> isActive_' (state_of (clapActivate (counting_author False) False ThisPlugin MainThread 48000
                               (inactive_instance checking_host))) \<and>
   sampleRate_' (state_of (clapActivate (counting_author False) False ThisPlugin MainThread 48000
                             (inactive_instance checking_host))) = 0 \<and>
   fst (activate (counting_author True) 48000 (author_state (inactive_instance checking_host))) \<and>
   returned (clapActivate (counting_author True) False ThisPlugin MainThread 48000
               (inactive_instance checking_host)) = Some True \<and>
   isActive_' (state_of (clapActivate (counting_author True) False ThisPlugin MainThread 48000
                             (inactive_instance checking_host))) \<and>
   sampleRate_' (state_of (clapActivate (counting_author True) False ThisPlugin MainThread 48000
                             (inactive_instance checking_host))) = 48000"
proof -
  have inactive: "\<not> isActive_' (inactive_instance checking_host)"
    and rate: "sampleRate_' (inactive_instance checking_host) = 0"
    and thread: "mainThreadOk MainThread (inactive_instance checking_host)"
    by (simp_all add: fixture_defs)
  have hook: "fst (activate (counting_author ok) 48000 n) = ok" for ok n
    by (simp add: counting_author_def)
  have log: "canUseHostLog (inactive_instance checking_host)"
    by (simp add: fixture_defs canUseHostLog_def)
  have bare: "\<not> isActive_' (inactive_instance bare_host)"
    "sampleRate_' (inactive_instance bare_host) = 0"
    "mainThreadOk MainThread (inactive_instance bare_host)"
    "\<not> canUseHostLog (inactive_instance bare_host)"
    by (simp_all add: fixture_defs canUseHostLog_def)
  have shown: "show_int 0 = ''0''" "show_int (- 5) = ''-5''"
    by (simp_all add: show_int_def show_nat.simps digit_char_def)
  show ?thesis
    using inactive rate thread hook log bare(4)
      activate_from_inactive [OF bare(1-3), where sample_rate = "- 5"
        and au = "counting_author True" and ndebug = False]
      activate_from_inactive [OF inactive rate thread, where sample_rate = 0
        and au = "counting_author True" and ndebug = False]
      activate_from_inactive [OF inactive rate thread, where sample_rate = 48000
        and au = "counting_author False" and ndebug = False]
      activate_from_inactive [OF inactive rate thread, where sample_rate = 48000
        and au = "counting_author True" and ndebug = False]
    by (simp add: shown misbehaving_event_def)
qed

text \<open>
  What a second \<open>activate\<close> at another rate does on any active instance, in a build with
  assertions: the simulated deactivation leaves the instance active, and the assertion
  that follows it stops the run.
\<close>

lemma reactivation_hits_assertion:
  assumes "isActive_' s" and "mainThreadOk t s"
    and "sample_rate \<noteq> sampleRate_' s" and "0 < sample_rate"
  shows "returned (clapActivate au False ThisPlugin t sample_rate s) = None \<and>
         isActive_' (state_of (clapActivate au False ThisPlugin t sample_rate s)) \<and>
         sampleRate_' (state_of (clapActivate au False ThisPlugin t sample_rate s)) = sampleRate_' s"
  using assms
  by (simp add: clapActivate_def clapDeactivate_def ensureMainThread_ok call_author_def
        cassert_def)

text \<open>
  Claim C2 fails on the code. \<open>clapDeactivate\<close> on an active instance calls the author's
  \<open>deactivate\<close> and returns; it never writes \<open>isActive_\<close> or \<open>sampleRate_\<close>
  (\<open>clapDeactivate_never_resets\<close>). Here the instance was activated at 44100: after
  \<open>deactivate\<close> it is still active and the recorded sample rate is still 44100, where the
  claim, and the assertions in \<open>clapActivate\<close> and \<open>sampleRate\<close>, want it inactive with
  sample rate 0.
\<close>

theorem deactivate_keeps_active:
  "returned (clapDeactivate (counting_author True) ThisPlugin MainThread (active_instance checking_host))
     = Some () \<and>
   new_events (active_instance checking_host)
     (state_of (clapDeactivate (counting_author True) ThisPlugin MainThread
                  (active_instance checking_host)))
     = [AuthorCall CallDeactivate] \<and>
   isActive_' (state_of (clapDeactivate (counting_author True) ThisPlugin MainThread
                           (active_instance checking_host))) \<and>
   sampleRate_' (state_of (clapDeactivate (counting_author True) ThisPlugin MainThread
                             (active_instance checking_host))) = 44100"
  by (simp add: fixture_defs clapDeactivate_def new_events_def)

text \<open>
  Claim C1 fails on the code, for the same reason. An instance active at 44100 is
  activated again at 48000. The two diagnostics are reported and \<open>clapDeactivate\<close> runs,
  but the instance stays active at 44100. In a build with assertions the call then
  stops at \<open>assert(!self.isActive_)\<close> and never returns. With \<open>NDEBUG\<close> the author's
  \<open>activate(48000)\<close> is called on the still active instance: the call returns true when
  the author succeeds, and when the author fails it returns false and leaves the
  instance active at 44100.
\<close>

theorem reactivate_other_rate_stays_active:
  "(isActive_' (active_instance checking_host) \<and>
    sampleRate_' (active_instance checking_host) = 44100) \<and>
   (returned (clapActivate (counting_author True) False ThisPlugin MainThread 48000
                (active_instance checking_host)) = None \<and>
    clapActivate (counting_author True) False ThisPlugin MainThread 48000
      (active_instance checking_host)
      = AssertFailed (state_of (clapDeactivate (counting_author True) ThisPlugin MainThread
          (hostMisbehaving
             (''The plugin was activated twice and with different sample rates: '' @
              ''44100 and 48000. The host must deactivate the plugin first.'' @ endl @
              ''Simulating deactivation.'')
             (hostMisbehaving ''Plugin was activated twice'' (active_instance checking_host))))) \<and>
    isActive_' (state_of (clapActivate (counting_author True) False ThisPlugin MainThread 48000
                            (active_instance checking_host))) \<and>
    sampleRate_' (state_of (clapActivate (counting_author True) False ThisPlugin MainThread 48000
                              (active_instance checking_host))) = 44100) \<and>
   (returned (clapActivate (counting_author True) True ThisPlugin MainThread 48000
                (active_instance checking_host)) = Some True \<and>
    new_events (active_instance checking_host)
      (state_of (clapActivate (counting_author True) True ThisPlugin MainThread 48000
                   (active_instance checking_host)))
      = [HostLog CLAP_LOG_HOST_MISBEHAVING ''Plugin was activated twice'',
         HostLog CLAP_LOG_HOST_MISBEHAVING
           (''The plugin was activated twice and with different sample rates: '' @
            ''44100 and 48000. The host must deactivate the plugin first.'' @ endl @
            ''Simulating deactivation.''),
         AuthorCall CallDeactivate,
         AuthorCall (CallActivate 48000)]) \<and>
   (returned (clapActivate (counting_author False) True ThisPlugin MainThread 48000
                (active_instance checking_host)) = Some False \<and>
    isActive_' (state_of (clapActivate (counting_author False) True ThisPlugin MainThread 48000
                            (active_instance checking_host))) \<and>
    sampleRate_' (state_of (clapActivate (counting_author False) True ThisPlugin MainThread 48000
                              (active_instance checking_host))) = 44100)"
  by (simp add: fixture_defs clapDeactivate_def hostMisbehaving_def plugin_log_def
        canUseHostLog_def new_events_def show_int_def show_nat.simps digit_char_def endl_def)

text \<open>
  Claim C5. For a call that passes the audio-thread guard: when the instance is not both
  active and processing, \<open>process\<close> returns \<open>CLAP_PROCESS_ERROR\<close>, reports a misbehaviour
  diagnostic (the one event the call adds to the trace: a line for the host's log when
  the host offers one, a line on \<open>std::clog\<close> otherwise) and does not call the author's
  \<open>process\<close>; when it is active and processing,
  the call returns the status of the author's \<open>process\<close>.
\<close>

theorem process_refused_unless_processing:
  assumes "audioThreadOk t s"
  shows
   "(\<not> isActive_' s \<longrightarrow>
       clapProcess au ThisPlugin t block s =
         Returned CLAP_PROCESS_ERROR
           (hostMisbehaving ''Host called clap_plugin.process() on a deactivated plugin'' s) \<and>
       new_events s (state_of (clapProcess au ThisPlugin t block s))
         = [if canUseHostLog s
            then HostLog CLAP_LOG_HOST_MISBEHAVING
                   ''Host called clap_plugin.process() on a deactivated plugin''
            else Clog ''Host called clap_plugin.process() on a deactivated plugin'']) \<and>
    (isActive_' s \<and> \<not> isProcessing_' s \<longrightarrow>
       clapProcess au ThisPlugin t block s =
         Returned CLAP_PROCESS_ERROR
           (hostMisbehaving
              ''Host called clap_plugin.process() without calling clap_plugin.start_processing()'' s) \<and>
       new_events s (state_of (clapProcess au ThisPlugin t block s))
         = [if canUseHostLog s
            then HostLog CLAP_LOG_HOST_MISBEHAVING
                   ''Host called clap_plugin.process() without calling clap_plugin.start_processing()''
            else Clog
                   ''Host called clap_plugin.process() without calling clap_plugin.start_processing()'']) \<and>
    (\<not> (isActive_' s \<and> isProcessing_' s) \<longrightarrow>
       returned (clapProcess au ThisPlugin t block s) = Some CLAP_PROCESS_ERROR \<and>
       AuthorCall CallProcess \<notin> set (new_events s (state_of (clapProcess au ThisPlugin t block s))) \<and>
       author_state (state_of (clapProcess au ThisPlugin t block s)) = author_state s) \<and>
    (isActive_' s \<and> isProcessing_' s \<longrightarrow>
       returned (clapProcess au ThisPlugin t block s) = Some (fst (process au block (author_state s))) \<and>
       new_events s (state_of (clapProcess au ThisPlugin t block s)) = [AuthorCall CallProcess] \<and>
       author_state (state_of (clapProcess au ThisPlugin t block s))
         = snd (process au block (author_state s)))"
  using assms
  by (simp add: clapProcess_def ensureAudioThread_ok call_author_def misbehaving_event_def)

text \<open>
  The theorem on an inactive instance, on an active one that is not processing, and on a
  processing one.
\<close>

theorem process_refused_unless_processing_witness:
  "audioThreadOk AudioThread (inactive_instance checking_host) \<and>
   \<not> isActive_' (inactive_instance checking_host) \<and>
   returned (clapProcess (counting_author True) ThisPlugin AudioThread () (inactive_instance checking_host))
     = Some CLAP_PROCESS_ERROR \<and>
   new_events (inactive_instance checking_host)
     (state_of (clapProcess (counting_author True) ThisPlugin AudioThread ()
                  (inactive_instance checking_host)))
     = [HostLog CLAP_LOG_HOST_MISBEHAVING
          ''Host called clap_plugin.process() on a deactivated plugin''] \<and>
   audioThreadOk AudioThread (active_instance checking_host) \<and>
   isActive_' (active_instance checking_host) \<and> \<not> isProcessing_' (active_instance checking_host) \<and>
   returned (clapProcess (counting_author True) ThisPlugin AudioThread () (active_instance checking_host))
     = Some CLAP_PROCESS_ERROR \<and>
   new_events (active_instance checking_host)
     (state_of (clapProcess (counting_author True) ThisPlugin AudioThread ()
                  (active_instance checking_host)))
     = [HostLog CLAP_LOG_HOST_MISBEHAVING
          ''Host called clap_plugin.process() without calling clap_plugin.start_processing()''] \<and>
   author_state (state_of (clapProcess (counting_author True) ThisPlugin AudioThread ()
                             (active_instance checking_host)))
     = author_state (active_instance checking_host) \<and>
   new_events (active_instance bare_host)
     (state_of (clapProcess (counting_author True) ThisPlugin AudioThread ()
                  (active_instance bare_host)))
     = [Clog ''Host called clap_plugin.process() without calling clap_plugin.start_processing()''] \<and>
   audioThreadOk AudioThread (processing_instance checking_host) \<and>
   isActive_' (processing_instance checking_host) \<and> isProcessing_' (processing_instance checking_host) \<and>
   returned (clapProcess (counting_author True) ThisPlugin AudioThread () (processing_instance checking_host))
     = Some CLAP_PROCESS_CONTINUE \<and>
   author_state (state_of (clapProcess (counting_author True) ThisPlugin AudioThread ()
                             (processing_instance checking_host)))
     = Suc (author_state (processing_instance checking_host))"
proof -
  have inactive: "audioThreadOk AudioThread (inactive_instance checking_host) \<and>
      \<not> isActive_' (inactive_instance checking_host)"
    by (simp add: fixture_defs)
  have active: "audioThreadOk AudioThread (active_instance checking_host) \<and>
      isActive_' (active_instance checking_host) \<and> \<not> isProcessing_' (active_instance checking_host)"
    by (simp add: fixture_defs)
  have processing: "audioThreadOk AudioThread (processing_instance checking_host) \<and>
      isActive_' (processing_instance checking_host) \<and> isProcessing_' (processing_instance checking_host)"
    by (simp add: fixture_defs)
  have hook: "process (counting_author True) () n = (CLAP_PROCESS_CONTINUE, Suc n)" for n
    by (simp add: counting_author_def)
  have log: "canUseHostLog (inactive_instance checking_host)"
    "canUseHostLog (active_instance checking_host)"
    by (simp_all add: fixture_defs canUseHostLog_def)
  have bare: "audioThreadOk AudioThread (active_instance bare_host)"
    "isActive_' (active_instance bare_host)" "\<not> isProcessing_' (active_instance bare_host)"
    "\<not> canUseHostLog (active_instance bare_host)"
    by (simp_all add: fixture_defs canUseHostLog_def)
  show ?thesis
    using inactive active processing hook log bare
      process_refused_unless_processing [where s = "active_instance bare_host" and t = AudioThread
        and au = "counting_author True" and block = "()"]
      process_refused_unless_processing [where s = "inactive_instance checking_host" and t = AudioThread
        and au = "counting_author True" and block = "()"]
      process_refused_unless_processing [where s = "active_instance checking_host" and t = AudioThread
        and au = "counting_author True" and block = "()"]
      process_refused_unless_processing [where s = "processing_instance checking_host" and t = AudioThread
        and au = "counting_author True" and block = "()"]
    by (simp add: misbehaving_event_def)
qed

subsection \<open>Audio ports\<close>

text \<open>
  On any active instance \<open>clapAudioPortsSetConfig\<close> hands the call on to the author and
  returns the author's result.
\<close>

lemma set_config_reaches_author:
  assumes "isActive_' s" and "mainThreadOk t s"
  shows "returned (clapAudioPortsSetConfig au ThisPlugin t config_id s)
           = Some (fst (audioPortsSetConfig au config_id (author_state s))) \<and>
         author_state (state_of (clapAudioPortsSetConfig au ThisPlugin t config_id s))
           = snd (audioPortsSetConfig au config_id (author_state s))"
  using assms
  by (simp add: clapAudioPortsSetConfig_def isActive_def ensureMainThread_ok call_author_def)

text \<open>
  Claim C6 fails on the code. On an active instance \<open>clapAudioPortsSetConfig\<close> reports the
  misbehaviour and then, having no \<open>return\<close> after the report, goes on to call the
  author's \<open>audioPortsSetConfig\<close> and returns its result: here true. The sibling
  \<open>clapParamsSetValue\<close> on the same instance returns false without calling the author.
\<close>

theorem set_config_while_active_delegates:
  "isActive (active_instance checking_host) \<and>
   returned (clapAudioPortsSetConfig (counting_author True) ThisPlugin MainThread 3
               (active_instance checking_host)) = Some True \<and>
   new_events (active_instance checking_host)
     (state_of (clapAudioPortsSetConfig (counting_author True) ThisPlugin MainThread 3
                  (active_instance checking_host)))
     = [HostLog CLAP_LOG_HOST_MISBEHAVING
          ''it is illegal to call clap_audio_ports.set_config if the plugin is active'',
        AuthorCall (CallAudioPortsSetConfig 3)] \<and>
   author_state (state_of (clapAudioPortsSetConfig (counting_author True) ThisPlugin MainThread 3
                             (active_instance checking_host)))
     = Suc (author_state (active_instance checking_host)) \<and>
   returned (clapParamsSetValue (counting_author True) ThisPlugin MainThread 10 1 0
               (active_instance checking_host)) = Some False \<and>
   author_state (state_of (clapParamsSetValue (counting_author True) ThisPlugin MainThread 10 1 0
                             (active_instance checking_host)))
     = author_state (active_instance checking_host)"
  by (simp add: fixture_defs clapAudioPortsSetConfig_def clapParamsSetValue_def isActive_def
        hostMisbehaving_def plugin_log_def canUseHostLog_def new_events_def)

subsection \<open>Parameters\<close>

text \<open>
  Claim C10. For a call that passes the main-thread guard, with a negative \<open>param_index\<close>
  and an author whose \<open>paramsCount()\<close> is below \<open>2^31\<close>: \<open>clapParamsIinfo\<close> returns false,
  reports a misbehaviour diagnostic, and calls the author's \<open>paramsCount\<close> but never the
  author's \<open>paramsInfo\<close>. The index is compared as a \<open>uint32_t\<close>, which is where the
  rejection comes from.
\<close>

theorem params_info_negative_index:
  assumes "mainThreadOk t s"
    and "sint param_index < 0"
    and "unat (paramsCount au (author_state s)) < 2 ^ 31"
  shows
   "clapParamsIinfo au ThisPlugin t param_index s =
      Returned None
        (hostMisbehaving
           (''called clap_plugin_params.info with an index out of bounds: '' @
            show_int32 param_index @ '' >= '' @ show_uint32 (paramsCount au (author_state s)))
           (emit (AuthorCall CallParamsCount) s)) \<and>
    new_events s (state_of (clapParamsIinfo au ThisPlugin t param_index s)) =
      [AuthorCall CallParamsCount,
       misbehaving_event s
         (''called clap_plugin_params.info with an index out of bounds: '' @
          show_int32 param_index @ '' >= '' @ show_uint32 (paramsCount au (author_state s)))] \<and>
    (\<forall>i. AuthorCall (CallParamsInfo i)
           \<notin> set (new_events s (state_of (clapParamsIinfo au ThisPlugin t param_index s))))"
proof -
  from assms(2,3) have "paramsCount au (author_state s) \<le> param_index"
    by (rule negative_index_is_large)
  with assms(1) show ?thesis
    by (auto simp add: clapParamsIinfo_def clapParamsCount_def ensureMainThread_ok call_const_def
          new_events_def misbehaving_event_def)
qed

text \<open>The theorem at index \<open>-1\<close>, for an author with two parameters.\<close>

theorem params_info_negative_index_witness:
  "mainThreadOk MainThread (inactive_instance checking_host) \<and>
   sint (- 1 :: 32 word) < 0 \<and>
   unat (paramsCount (counting_author True) (author_state (inactive_instance checking_host))) < 2 ^ 31 \<and>
   returned (clapParamsIinfo (counting_author True) ThisPlugin MainThread (- 1)
               (inactive_instance checking_host)) = Some None \<and>
   new_events (inactive_instance checking_host)
     (state_of (clapParamsIinfo (counting_author True) ThisPlugin MainThread (- 1)
                  (inactive_instance checking_host))) =
     [AuthorCall CallParamsCount,
      HostLog CLAP_LOG_HOST_MISBEHAVING
        ''called clap_plugin_params.info with an index out of bounds: -1 >= 2'']"
proof -
  have thread: "mainThreadOk MainThread (inactive_instance checking_host)"
    by (simp add: fixture_defs)
  have negative: "sint (- 1 :: 32 word) < 0"
    by simp
  have count: "paramsCount (counting_author True) a = 2" for a
    by (simp add: counting_author_def)
  have small: "unat (paramsCount (counting_author True) (author_state (inactive_instance checking_host)))
      < 2 ^ 31"
    by (simp add: count)
  have log: "canUseHostLog (inactive_instance checking_host)"
    by (simp add: fixture_defs canUseHostLog_def)
  have shown: "show_int32 (- 1) = ''-1''" "show_uint32 2 = ''2''"
    by (simp_all add: show_int32_def show_uint32_def show_int_def show_nat.simps digit_char_def)
  show ?thesis
    using thread negative small log
      params_info_negative_index [OF thread negative small]
    by (simp add: count shown misbehaving_event_def new_events_def)
qed

text \<open>
  The loop of \<open>isValidParamId\<close>: what it adds to the trace, and what it returns.
\<close>

lemma word_succ_le_iff:
  fixes i j count :: "32 word"
  assumes "i < count"
  shows "i + 1 \<le> j \<longleftrightarrow> i < j"
proof -
  from assms have "unat i < unat count"
    by (simp add: word_less_nat_alt)
  moreover have "unat count < 2 ^ 32"
    using unsigned_less [of count] by simp
  ultimately have "unat i + 1 < 2 ^ 32"
    by simp
  then have "unat (i + 1) = Suc (unat i)"
    by (simp add: unat_word_ariths)
  then show ?thesis
    by (simp add: word_le_nat_alt word_less_nat_alt Suc_le_eq)
qed

lemma isValidParamId_loop_frame:
  "\<exists>es. state_of (isValidParamId_loop au param_id count i s) = s\<lparr>trace := trace s @ es\<rparr> \<and>
        list_all is_scan_event es"
proof (induction au param_id count i s rule: isValidParamId_loop.induct)
  case (1 au param_id count i s)
  show ?case
  proof (cases "i < count")
    case False
    then show ?thesis
      by (intro exI [of _ "[]"]) (simp add: isValidParamId_loop.simps)
  next
    case True
    let ?s1 = "emit (AuthorCall (CallParamsInfo i)) s"
    have stop: "?s1 = s\<lparr>trace := trace s @ [AuthorCall (CallParamsInfo i)]\<rparr>"
      by (simp add: emit_def)
    have continue: "\<exists>es. state_of (isValidParamId_loop au param_id count (i + 1) ?s1)
          = s\<lparr>trace := trace s @ es\<rparr> \<and> list_all is_scan_event es"
      if ih: "\<exists>es. state_of (isValidParamId_loop au param_id count (i + 1) ?s1)
          = ?s1\<lparr>trace := trace ?s1 @ es\<rparr> \<and> list_all is_scan_event es"
    proof -
      from ih obtain es where
        es: "state_of (isValidParamId_loop au param_id count (i + 1) ?s1)
               = ?s1\<lparr>trace := trace ?s1 @ es\<rparr>" "list_all is_scan_event es"
        by blast
      have "?s1\<lparr>trace := trace ?s1 @ es\<rparr> = s\<lparr>trace := trace s @ (AuthorCall (CallParamsInfo i) # es)\<rparr>"
        by (simp add: emit_def)
      moreover have "list_all is_scan_event (AuthorCall (CallParamsInfo i) # es)"
        using es(2) by simp
      ultimately show ?thesis
        using es(1) by (intro exI [of _ "AuthorCall (CallParamsInfo i) # es"]) simp
    qed
    show ?thesis
    proof (cases "paramsInfo au i (author_state s)")
      case None
      with True "1.IH"(1) continue show ?thesis
        by (simp add: isValidParamId_loop.simps [of au param_id count i s])
    next
      case (Some info)
      show ?thesis
      proof (cases "info_id info = param_id")
        case True
        with \<open>i < count\<close> Some
        have "state_of (isValidParamId_loop au param_id count i s)
            = s\<lparr>trace := trace s @ [AuthorCall (CallParamsInfo i)]\<rparr>"
          by (simp add: isValidParamId_loop.simps [of au param_id count i s] stop)
        moreover have "list_all is_scan_event [AuthorCall (CallParamsInfo i)]"
          by simp
        ultimately show ?thesis
          by blast
      next
        case False
        with \<open>i < count\<close> Some "1.IH"(2) continue show ?thesis
          by (simp add: isValidParamId_loop.simps [of au param_id count i s])
      qed
    qed
  qed
qed

lemma isValidParamId_loop_result:
  "\<exists>s'. isValidParamId_loop au param_id count i s =
     Returned (\<exists>j. i \<le> j \<and> j < count \<and>
                 (\<exists>info. paramsInfo au j (author_state s) = Some info \<and> info_id info = param_id)) s'"
proof (induction au param_id count i s rule: isValidParamId_loop.induct)
  case (1 au param_id count i s)
  let ?hit = "\<lambda>j. \<exists>info. paramsInfo au j (author_state s) = Some info \<and> info_id info = param_id"
  show ?case
  proof (cases "i < count")
    case False
    then have "\<not> (\<exists>j. i \<le> j \<and> j < count \<and> ?hit j)"
      by auto
    with False show ?thesis
      by (simp add: isValidParamId_loop.simps [of au param_id count i s])
  next
    case True
    let ?s1 = "emit (AuthorCall (CallParamsInfo i)) s"
    have shift: "(\<exists>j. i \<le> j \<and> j < count \<and> ?hit j) \<longleftrightarrow> (\<exists>j. i + 1 \<le> j \<and> j < count \<and> ?hit j)"
      if "\<not> ?hit i"
    proof -
      have "i \<le> j \<and> ?hit j \<longleftrightarrow> i + 1 \<le> j \<and> ?hit j" for j
        using that word_succ_le_iff [OF True, of j] by (auto simp add: order_le_less)
      then show ?thesis
        by blast
    qed
    show ?thesis
    proof (cases "paramsInfo au i (author_state s)")
      case None
      then have "\<not> ?hit i"
        by simp
      from shift [OF this] True None "1.IH"(1) show ?thesis
        by (simp add: isValidParamId_loop.simps [of au param_id count i s])
    next
      case (Some info)
      show ?thesis
      proof (cases "info_id info = param_id")
        case hit: True
        with Some True have "\<exists>j. i \<le> j \<and> j < count \<and> ?hit j"
          by auto
        with hit Some True show ?thesis
          by (simp add: isValidParamId_loop.simps [of au param_id count i s])
      next
        case False
        with Some have "\<not> ?hit i"
          by simp
        from shift [OF this] True Some False "1.IH"(2) show ?thesis
          by (simp add: isValidParamId_loop.simps [of au param_id count i s])
      qed
    qed
  qed
qed

lemma isValidParamId_outcome:
  assumes "mainThreadOk t s"
  shows "\<exists>es. isValidParamId au t param_id s =
           Returned (reports_id au (author_state s) param_id) (s\<lparr>trace := trace s @ es\<rparr>) \<and>
         list_all is_scan_event es"
proof -
  let ?s0 = "emit (AuthorCall CallParamsCount) s"
  let ?count = "paramsCount au (author_state s)"
  obtain s' where
    result: "isValidParamId_loop au param_id ?count 0 ?s0 =
      Returned (\<exists>j. 0 \<le> j \<and> j < ?count \<and>
                 (\<exists>info. paramsInfo au j (author_state ?s0) = Some info \<and> info_id info = param_id)) s'"
    using isValidParamId_loop_result [of au param_id ?count 0 ?s0] by blast
  obtain es where
    frame: "state_of (isValidParamId_loop au param_id ?count 0 ?s0) = ?s0\<lparr>trace := trace ?s0 @ es\<rparr>"
      "list_all is_scan_event es"
    using isValidParamId_loop_frame [of au param_id ?count 0 ?s0] by blast
  from result frame(1) have s': "s' = s\<lparr>trace := trace s @ (AuthorCall CallParamsCount # es)\<rparr>"
    by (simp add: emit_def)
  have "isValidParamId au t param_id s =
      Returned (reports_id au (author_state s) param_id)
        (s\<lparr>trace := trace s @ (AuthorCall CallParamsCount # es)\<rparr>)"
    using assms result s'
    by (simp add: isValidParamId_def checkMainThread_ok call_const_def reports_id_def)
  moreover have "list_all is_scan_event (AuthorCall CallParamsCount # es)"
    using frame(2) by simp
  ultimately show ?thesis
    by blast
qed

lemma checked_query:
  assumes "mainThreadOk t s"
  shows
   "(\<not> reports_id au (author_state s) param_id \<longrightarrow>
       rejected_with s
         (andThen (isValidParamId au t param_id s) (\<lambda>valid s.
            if \<not> valid then Returned failure (hostMisbehaving msg s) else call_author call f s))
         failure msg) \<and>
    (reports_id au (author_state s) param_id \<longrightarrow>
       delegated_to s
         (andThen (isValidParamId au t param_id s) (\<lambda>valid s.
            if \<not> valid then Returned failure (hostMisbehaving msg s) else call_author call f s))
         call (f (author_state s)))"
proof -
  obtain es where
    valid: "isValidParamId au t param_id s =
      Returned (reports_id au (author_state s) param_id) (s\<lparr>trace := trace s @ es\<rparr>)"
    and scan: "list_all is_scan_event es"
    using isValidParamId_outcome [OF assms] by blast
  show ?thesis
    using scan
    by (simp add: valid rejected_with_def delegated_to_def call_author_def new_events_def
          hostMisbehaving_def plugin_log_def misbehaving_event_def canUseHostLog_def emit_def)
qed

text \<open>
  Claim C7. For calls that pass the main-thread guard: \<open>isValidParamId\<close> returns true
  exactly for the ids some index below \<open>paramsCount()\<close> reports through a successful
  \<open>paramsInfo\<close>. For an id that is not valid, each of \<open>paramsEnumValue\<close>, \<open>paramsValue\<close>,
  \<open>paramsSetValue\<close> (on an inactive instance), \<open>paramsValueToText\<close> and
  \<open>paramsTextToValue\<close> returns false, reports a misbehaviour diagnostic and calls nothing
  of the author's but the scan's \<open>paramsCount\<close> and \<open>paramsInfo\<close>. For a valid id each of
  them calls the author's method of the same name and returns its result.
\<close>

theorem param_id_checks:
  assumes "mainThreadOk t s"
  shows
   "returned (isValidParamId au t param_id s) = Some (reports_id au (author_state s) param_id) \<and>
    (\<not> reports_id au (author_state s) param_id \<longrightarrow>
       rejected_with s (clapParamsEnumValue au ThisPlugin t param_id value_index s) None
         (''clap_plugin_params.enum_value called with invalid param_id: '' @ show_uint32 param_id) \<and>
       rejected_with s (clapParamsValue au ThisPlugin t param_id s) None
         (''clap_plugin_params.value called with invalid param_id: '' @ show_uint32 param_id) \<and>
       (\<not> isActive_' s \<longrightarrow>
          rejected_with s (clapParamsSetValue au ThisPlugin t param_id val modulation s) False
            (''clap_plugin_params.set_value called with invalid param_id: '' @ show_uint32 param_id)) \<and>
       rejected_with s (clapParamsValueToText au ThisPlugin t param_id val buf_size s) None
         (''clap_plugin_params.value_to_text called with invalid param_id: '' @ show_uint32 param_id) \<and>
       rejected_with s (clapParamsTextToValue au ThisPlugin t param_id display s) None
         (''clap_plugin_params.text_to_value called with invalid param_id: '' @ show_uint32 param_id)) \<and>
    (reports_id au (author_state s) param_id \<longrightarrow>
       delegated_to s (clapParamsEnumValue au ThisPlugin t param_id value_index s)
         (CallParamsEnumValue param_id value_index)
         (paramsEnumValue au param_id value_index (author_state s)) \<and>
       delegated_to s (clapParamsValue au ThisPlugin t param_id s)
         (CallParamsValue param_id)
         (paramsValue au param_id (author_state s)) \<and>
       (\<not> isActive_' s \<longrightarrow>
          delegated_to s (clapParamsSetValue au ThisPlugin t param_id val modulation s)
            (CallParamsSetValue param_id)
            (paramsSetValue au param_id val modulation (author_state s))) \<and>
       delegated_to s (clapParamsValueToText au ThisPlugin t param_id val buf_size s)
         (CallParamsValueToText param_id)
         (paramsValueToText au param_id val buf_size (author_state s)) \<and>
       delegated_to s (clapParamsTextToValue au ThisPlugin t param_id display s)
         (CallParamsTextToValue param_id)
         (paramsTextToValue au param_id display (author_state s)))"
proof -
  have valid: "returned (isValidParamId au t param_id s)
      = Some (reports_id au (author_state s) param_id)"
    using isValidParamId_outcome [OF assms, of au param_id] by auto
  note query = checked_query [OF assms, of au param_id]
  have enum_value:
    "(\<not> reports_id au (author_state s) param_id \<longrightarrow>
        rejected_with s (clapParamsEnumValue au ThisPlugin t param_id value_index s) None
          (''clap_plugin_params.enum_value called with invalid param_id: '' @ show_uint32 param_id)) \<and>
     (reports_id au (author_state s) param_id \<longrightarrow>
        delegated_to s (clapParamsEnumValue au ThisPlugin t param_id value_index s)
          (CallParamsEnumValue param_id value_index)
          (paramsEnumValue au param_id value_index (author_state s)))"
    unfolding clapParamsEnumValue_def from_plugin_this andThen.simps
      ensureMainThread_ok [OF assms]
    by (rule query)
  have "value":
    "(\<not> reports_id au (author_state s) param_id \<longrightarrow>
        rejected_with s (clapParamsValue au ThisPlugin t param_id s) None
          (''clap_plugin_params.value called with invalid param_id: '' @ show_uint32 param_id)) \<and>
     (reports_id au (author_state s) param_id \<longrightarrow>
        delegated_to s (clapParamsValue au ThisPlugin t param_id s)
          (CallParamsValue param_id)
          (paramsValue au param_id (author_state s)))"
    unfolding clapParamsValue_def from_plugin_this andThen.simps
      ensureMainThread_ok [OF assms]
    by (rule query)
  have set_value:
    "(\<not> reports_id au (author_state s) param_id \<longrightarrow>
        rejected_with s (clapParamsSetValue au ThisPlugin t param_id val modulation s) False
          (''clap_plugin_params.set_value called with invalid param_id: '' @ show_uint32 param_id)) \<and>
     (reports_id au (author_state s) param_id \<longrightarrow>
        delegated_to s (clapParamsSetValue au ThisPlugin t param_id val modulation s)
          (CallParamsSetValue param_id)
          (paramsSetValue au param_id val modulation (author_state s)))"
    if "\<not> isActive_' s"
    unfolding clapParamsSetValue_def from_plugin_this andThen.simps
      ensureMainThread_ok [OF assms] if_not_P [OF that]
    by (rule query)
  have value_to_text:
    "(\<not> reports_id au (author_state s) param_id \<longrightarrow>
        rejected_with s (clapParamsValueToText au ThisPlugin t param_id val buf_size s) None
          (''clap_plugin_params.value_to_text called with invalid param_id: '' @ show_uint32 param_id)) \<and>
     (reports_id au (author_state s) param_id \<longrightarrow>
        delegated_to s (clapParamsValueToText au ThisPlugin t param_id val buf_size s)
          (CallParamsValueToText param_id)
          (paramsValueToText au param_id val buf_size (author_state s)))"
    unfolding clapParamsValueToText_def from_plugin_this andThen.simps
      ensureMainThread_ok [OF assms]
    by (rule query)
  have text_to_value:
    "(\<not> reports_id au (author_state s) param_id \<longrightarrow>
        rejected_with s (clapParamsTextToValue au ThisPlugin t param_id display s) None
          (''clap_plugin_params.text_to_value called with invalid param_id: '' @ show_uint32 param_id)) \<and>
     (reports_id au (author_state s) param_id \<longrightarrow>
        delegated_to s (clapParamsTextToValue au ThisPlugin t param_id display s)
          (CallParamsTextToValue param_id)
          (paramsTextToValue au param_id display (author_state s)))"
    unfolding clapParamsTextToValue_def from_plugin_this andThen.simps
      ensureMainThread_ok [OF assms]
    by (rule query)
  from valid enum_value "value" set_value value_to_text text_to_value show ?thesis
    by blast
qed

text \<open>
  The theorem for an author with the parameter ids 10 and 20, at the valid id 20 and the
  invalid id 21.
\<close>

theorem param_id_checks_witness:
  "mainThreadOk MainThread (inactive_instance checking_host) \<and>
   \<not> isActive_' (inactive_instance checking_host) \<and>
   reports_id (counting_author True) (author_state (inactive_instance checking_host)) 20 \<and>
   \<not> reports_id (counting_author True) (author_state (inactive_instance checking_host)) 21 \<and>
   returned (isValidParamId (counting_author True) MainThread 20 (inactive_instance checking_host))
     = Some True \<and>
   returned (isValidParamId (counting_author True) MainThread 21 (inactive_instance checking_host))
     = Some False \<and>
   returned (clapParamsValue (counting_author True) ThisPlugin MainThread 20
               (inactive_instance checking_host)) = Some (Some 2) \<and>
   returned (clapParamsValue (counting_author True) ThisPlugin MainThread 21
               (inactive_instance checking_host)) = Some None \<and>
   author_state (state_of (clapParamsValue (counting_author True) ThisPlugin MainThread 21
                             (inactive_instance checking_host)))
     = author_state (inactive_instance checking_host) \<and>
   returned (clapParamsSetValue (counting_author True) ThisPlugin MainThread 20 1 0
               (inactive_instance checking_host)) = Some True \<and>
   returned (clapParamsSetValue (counting_author True) ThisPlugin MainThread 21 1 0
               (inactive_instance checking_host)) = Some False \<and>
   last (new_events (inactive_instance checking_host)
           (state_of (clapParamsSetValue (counting_author True) ThisPlugin MainThread 21 1 0
                        (inactive_instance checking_host))))
     = HostLog CLAP_LOG_HOST_MISBEHAVING
         (''clap_plugin_params.set_value called with invalid param_id: '' @ show_uint32 21)"
proof -
  have thread: "mainThreadOk MainThread (inactive_instance checking_host)"
    and inactive: "\<not> isActive_' (inactive_instance checking_host)"
    and log: "canUseHostLog (inactive_instance checking_host)"
    by (simp_all add: fixture_defs canUseHostLog_def)
  have known: "reports_id (counting_author True) a 20" for a
    unfolding reports_id_def
    by (rule exI [of _ 1]) (simp add: counting_author_def)
  have unknown: "\<not> reports_id (counting_author True) a 21" for a
    by (auto simp add: reports_id_def counting_author_def split: if_splits)
  have hooks: "paramsValue (counting_author True) 20 a = (Some 2, Suc a)"
    "paramsSetValue (counting_author True) 20 1 0 a = (True, Suc a)" for a
    by (simp_all add: counting_author_def)
  show ?thesis
    using thread inactive log known unknown hooks
      param_id_checks [OF thread, where au = "counting_author True" and param_id = 20
        and val = 1 and modulation = 0]
      param_id_checks [OF thread, where au = "counting_author True" and param_id = 21
        and val = 1 and modulation = 0]
    by (simp add: rejected_with_def delegated_to_def misbehaving_event_def)
qed

subsection \<open>Extension dispatch\<close>

text \<open>
  Claim C9. For calls that pass the main-thread guard, the four extension ids being
  pairwise different: the render id yields the adapter's render table and the track-info
  id its track-info table; the audio-ports id yields the audio-ports table exactly when
  \<open>implementsAudioPorts()\<close> holds, the params id the params table exactly when
  \<open>implementsParams()\<close> holds; every other id, and each of those two ids when its
  predicate is false, goes to the author's \<open>extension(id)\<close>, whose result, null or not,
  is returned.
\<close>

theorem extension_dispatch:
  assumes "mainThreadOk t s"
    and "distinct [CLAP_EXT_RENDER, CLAP_EXT_TRACK_INFO ids, CLAP_EXT_AUDIO_PORTS ids,
                   CLAP_EXT_PARAMS ids]"
  shows
   "clapExtension au ids ThisPlugin t CLAP_EXT_RENDER s = Returned (Some PluginRender) s \<and>
    clapExtension au ids ThisPlugin t (CLAP_EXT_TRACK_INFO ids) s = Returned (Some PluginTrackInfo) s \<and>
    (returned (clapExtension au ids ThisPlugin t (CLAP_EXT_AUDIO_PORTS ids) s)
       = Some (Some PluginAudioPorts) \<longleftrightarrow> implementsAudioPorts au (author_state s)) \<and>
    (returned (clapExtension au ids ThisPlugin t (CLAP_EXT_PARAMS ids) s)
       = Some (Some PluginParams) \<longleftrightarrow> implementsParams au (author_state s)) \<and>
    (ext_id \<noteq> CLAP_EXT_RENDER \<and> ext_id \<noteq> CLAP_EXT_TRACK_INFO ids \<and>
     (ext_id = CLAP_EXT_AUDIO_PORTS ids \<longrightarrow> \<not> implementsAudioPorts au (author_state s)) \<and>
     (ext_id = CLAP_EXT_PARAMS ids \<longrightarrow> \<not> implementsParams au (author_state s)) \<longrightarrow>
       returned (clapExtension au ids ThisPlugin t ext_id s)
         = Some (map_option AuthorInterface (fst (extension au ext_id (author_state s)))) \<and>
       author_state (state_of (clapExtension au ids ThisPlugin t ext_id s))
         = snd (extension au ext_id (author_state s)) \<and>
       last (new_events s (state_of (clapExtension au ids ThisPlugin t ext_id s)))
         = AuthorCall (CallExtension ext_id))"
proof -
  have render: "clapExtension au ids ThisPlugin t CLAP_EXT_RENDER s = Returned (Some PluginRender) s"
    using assms(1) by (simp add: clapExtension_def ensureMainThread_ok)
  have track_info: "clapExtension au ids ThisPlugin t (CLAP_EXT_TRACK_INFO ids) s
      = Returned (Some PluginTrackInfo) s"
    using assms by (auto simp add: clapExtension_def ensureMainThread_ok)
  have audio_ports: "returned (clapExtension au ids ThisPlugin t (CLAP_EXT_AUDIO_PORTS ids) s)
       = Some (Some PluginAudioPorts) \<longleftrightarrow> implementsAudioPorts au (author_state s)"
    using assms
    by (cases "fst (extension au (CLAP_EXT_AUDIO_PORTS ids) (author_state s))")
       (auto simp add: clapExtension_def ensureMainThread_ok call_const_def call_author_def)
  have params: "returned (clapExtension au ids ThisPlugin t (CLAP_EXT_PARAMS ids) s)
       = Some (Some PluginParams) \<longleftrightarrow> implementsParams au (author_state s)"
    using assms
    by (cases "fst (extension au (CLAP_EXT_PARAMS ids) (author_state s))")
       (auto simp add: clapExtension_def ensureMainThread_ok call_const_def call_author_def)
  have fallback:
    "returned (clapExtension au ids ThisPlugin t ext_id s)
         = Some (map_option AuthorInterface (fst (extension au ext_id (author_state s)))) \<and>
     author_state (state_of (clapExtension au ids ThisPlugin t ext_id s))
         = snd (extension au ext_id (author_state s)) \<and>
     last (new_events s (state_of (clapExtension au ids ThisPlugin t ext_id s)))
         = AuthorCall (CallExtension ext_id)"
    if "ext_id \<noteq> CLAP_EXT_RENDER" and "ext_id \<noteq> CLAP_EXT_TRACK_INFO ids"
      and "ext_id = CLAP_EXT_AUDIO_PORTS ids \<longrightarrow> \<not> implementsAudioPorts au (author_state s)"
      and "ext_id = CLAP_EXT_PARAMS ids \<longrightarrow> \<not> implementsParams au (author_state s)"
    using assms(1) that
    by (simp add: clapExtension_def ensureMainThread_ok call_const_def call_author_def
          new_events_def emit_def)
  from render track_info audio_ports params fallback show ?thesis
    by blast
qed

text \<open>
  The theorem with the ids \<open>clap/track-info\<close>, \<open>clap/audio-ports\<close> and \<open>clap/params\<close>,
  for an author that implements audio ports but not params and answers the id
  \<open>author/custom\<close> itself.
\<close>

theorem extension_dispatch_witness:
  "mainThreadOk MainThread (inactive_instance checking_host) \<and>
   distinct [CLAP_EXT_RENDER, CLAP_EXT_TRACK_INFO sample_ids, CLAP_EXT_AUDIO_PORTS sample_ids,
             CLAP_EXT_PARAMS sample_ids] \<and>
   returned (clapExtension (counting_author True) sample_ids ThisPlugin MainThread ''clap/render''
               (inactive_instance checking_host)) = Some (Some PluginRender) \<and>
   returned (clapExtension (counting_author True) sample_ids ThisPlugin MainThread ''clap/track-info''
               (inactive_instance checking_host)) = Some (Some PluginTrackInfo) \<and>
   implementsAudioPorts (counting_author True) (author_state (inactive_instance checking_host)) \<and>
   returned (clapExtension (counting_author True) sample_ids ThisPlugin MainThread ''clap/audio-ports''
               (inactive_instance checking_host)) = Some (Some PluginAudioPorts) \<and>
   \<not> implementsParams (counting_author True) (author_state (inactive_instance checking_host)) \<and>
   returned (clapExtension (counting_author True) sample_ids ThisPlugin MainThread ''clap/params''
               (inactive_instance checking_host)) \<noteq> Some (Some PluginParams) \<and>
   returned (clapExtension (counting_author True) sample_ids ThisPlugin MainThread ''clap/params''
               (inactive_instance checking_host)) = Some None \<and>
   returned (clapExtension (counting_author True) sample_ids ThisPlugin MainThread ''author/custom''
               (inactive_instance checking_host)) = Some (Some (AuthorInterface 7))"
proof -
  have thread: "mainThreadOk MainThread (inactive_instance checking_host)"
    by (simp add: fixture_defs)
  have ids: "distinct [CLAP_EXT_RENDER, CLAP_EXT_TRACK_INFO sample_ids,
      CLAP_EXT_AUDIO_PORTS sample_ids, CLAP_EXT_PARAMS sample_ids]"
    by (simp add: CLAP_EXT_RENDER_def sample_ids_def)
  have id_values: "CLAP_EXT_RENDER = ''clap/render''"
    "CLAP_EXT_TRACK_INFO sample_ids = ''clap/track-info''"
    "CLAP_EXT_AUDIO_PORTS sample_ids = ''clap/audio-ports''"
    "CLAP_EXT_PARAMS sample_ids = ''clap/params''"
    by (simp_all add: CLAP_EXT_RENDER_def sample_ids_def)
  have hooks: "implementsAudioPorts (counting_author True) a"
    "\<not> implementsParams (counting_author True) a"
    "extension (counting_author True) ''clap/params'' a = (None, Suc a)"
    "extension (counting_author True) ''author/custom'' a = (Some 7, Suc a)" for a
    by (simp_all add: counting_author_def)
  show ?thesis
    using thread ids hooks
      extension_dispatch [OF thread ids, where au = "counting_author True"
        and ext_id = "''clap/params''"]
      extension_dispatch [OF thread ids, where au = "counting_author True"
        and ext_id = "''author/custom''"]
    by (simp add: id_values)
qed

end
